theory Spec2Isabelle
  imports Complex_Main
begin

section \<open>Instance-type selection (ec2cluster/instance.go)\<close>

text \<open>
  A finite \<open>float64\<close> value (a price, an EBS throughput, a resource amount, a
  distance) is modelled by the real number it denotes; the comparisons of the code are
  then the comparisons of the reals. The arithmetic of the code on these values is
  modelled with its rounding, see \<open>round64\<close> below. A \<open>time.Time\<close> is an integer
  count of nanoseconds, a \<open>time.Duration\<close> an integer count of nanoseconds.
\<close>

type_synonym Resources = "string \<rightharpoonup> real"

text \<open>Reading a Go map at a missing key yields the zero value.\<close>

definition res_get :: "Resources \<Rightarrow> string \<Rightarrow> real" where
  "res_get r key = (case r key of None \<Rightarrow> 0 | Some v \<Rightarrow> v)"

text \<open>
  Modelled from the spec: \<open>(reflow.Resources).Available\<close> is code of this repository
  that is not among the source files. The spec: "vector A satisfies requirement B iff
  every component of A is \<ge> the corresponding component of B".
\<close>

definition Available :: "Resources \<Rightarrow> Resources \<Rightarrow> bool" where
  "Available r s = (\<forall>key \<in> dom s. \<not> res_get r key < res_get s key)"

record instanceConfig =
  Type :: string
  EBSOptimized :: bool
  EBSThroughput :: real
  Resources :: Resources
  Price :: "string \<rightharpoonup> real"
  SpotOk :: bool
  NVMe :: bool

text \<open>The zero value \<open>instanceConfig{}\<close>: the maps are nil and read as empty.\<close>

definition zero_config :: instanceConfig where
  "zero_config = \<lparr> Type = [], EBSOptimized = False, EBSThroughput = 0,
     Resources = Map.empty, Price = Map.empty, SpotOk = False, NVMe = False \<rparr>"

record instanceState =
  configs :: "instanceConfig list"
  sleepTime :: int
  region :: string
  unavailable :: "string \<rightharpoonup> int"

definition MaxFloat64 :: real where
  "MaxFloat64 = 2 ^ 1024 - 2 ^ 971"

definition maxDuration :: int where
  "maxDuration = 2 ^ 63 - 1"

definition ebsThroughputPremiumCost :: real where
  "ebsThroughputPremiumCost = 0.03"

definition ebsThroughputPremiumPct :: real where
  "ebsThroughputPremiumPct = 15.0"

definition ebsThroughputBenefitPct :: real where
  "ebsThroughputBenefitPct = 50.0"

subsection \<open>The float64 arithmetic of the second loop of MinAvailable\<close>

text \<open>
  The result of a \<open>float64\<close> operation is the exact result rounded to the nearest
  \<open>float64\<close>, ties to the even significand (IEEE 754 binary64: 53 significant bits,
  exponents from \<open>-1022\<close> to \<open>1023\<close>, subnormal numbers below). \<open>round_even\<close> rounds
  to the nearest integer, ties to even.
\<close>

definition round_even :: "real \<Rightarrow> int" where
  "round_even y = (let f = \<lfloor>y\<rfloor>; r = y - of_int f
                   in if r < 1 / 2 then f else if 1 / 2 < r then f + 1
                      else if even f then f else f + 1)"

text \<open>
  The exponent of the unit in the last place of \<open>x\<close>: 52 below the binary exponent of
  \<open>x\<close>, and never below \<open>-1074\<close>, the exponent of the smallest subnormal number.
\<close>

definition ulp_exponent :: "real \<Rightarrow> int" where
  "ulp_exponent x = max (\<lfloor>log 2 \<bar>x\<bar>\<rfloor> - 52) (- 1074)"

text \<open>The nearest multiple of the unit in the last place, before the test for overflow.\<close>

definition nearest64 :: "real \<Rightarrow> real" where
  "nearest64 x = (if x = 0 then 0
                  else of_int (round_even (x / 2 powi ulp_exponent x)) * 2 powi ulp_exponent x)"

text \<open>
  The result of an operation is finite or, when the rounded magnitude reaches
  \<open>2 ^ 1024\<close>, an infinity. No operand of the operations below is a NaN or an infinity,
  so no result is a NaN.
\<close>

datatype f64 = Finite real | PosInf | NegInf

definition round64 :: "real \<Rightarrow> f64" where
  "round64 x = (let r = nearest64 x
                in if 2 ^ 1024 \<le> r then PosInf else if r \<le> - (2 ^ 1024) then NegInf else Finite r)"

text \<open>
  An untyped constant of the source is exact; where it meets a \<open>float64\<close> operand it is
  converted to the nearest \<open>float64\<close>. The three constants used here are far from
  overflow.
\<close>

definition f64_const :: "real \<Rightarrow> real" where
  "f64_const c = nearest64 c"

definition f64_add :: "real \<Rightarrow> real \<Rightarrow> f64" where
  "f64_add x y = round64 (x + y)"

definition f64_mul :: "real \<Rightarrow> real \<Rightarrow> f64" where
  "f64_mul x y = round64 (x * y)"

text \<open>\<open>x < t\<close> and \<open>x > t\<close> for a finite \<open>x\<close> and the result \<open>t\<close> of an operation.\<close>

definition f64_less :: "real \<Rightarrow> f64 \<Rightarrow> bool" where
  "f64_less x t = (case t of Finite y \<Rightarrow> x < y | PosInf \<Rightarrow> True | NegInf \<Rightarrow> False)"

definition f64_greater :: "real \<Rightarrow> f64 \<Rightarrow> bool" where
  "f64_greater x t = (case t of Finite y \<Rightarrow> y < x | PosInf \<Rightarrow> False | NegInf \<Rightarrow> True)"

text \<open>
  \<open>time.Since(s.unavailable[typ])\<close> at the instant \<open>now\<close>. A type that was never marked
  reads as the zero \<open>time.Time\<close> (year 1), and the subtraction saturates at the largest
  duration.
\<close>

definition Since :: "int \<Rightarrow> int option \<Rightarrow> int" where
  "Since now t = (case t of None \<Rightarrow> maxDuration | Some t0 \<Rightarrow> now - t0)"

text \<open>\<open>Unavailable\<close> records the current time for the type of the config.\<close>

definition Unavailable :: "instanceState \<Rightarrow> int \<Rightarrow> instanceConfig \<Rightarrow> instanceState" where
  "Unavailable s now config = s\<lparr> unavailable := (unavailable s)(Type config \<mapsto> now) \<rparr>"

text \<open>
  The guard shared by the loops of \<open>MaxAvailable\<close> and \<open>MinAvailable\<close>:
  \<open>time.Since(s.unavailable[config.Type]) < s.sleepTime || (spot && !config.SpotOk)\<close>.
\<close>

definition skipped :: "instanceState \<Rightarrow> int \<Rightarrow> bool \<Rightarrow> instanceConfig \<Rightarrow> bool" where
  "skipped s now spot config =
     (Since now (unavailable s (Type config)) < sleepTime s \<or> (spot \<and> \<not> SpotOk config))"

text \<open>
  The loop of \<open>MaxAvailable\<close>, with the pair \<open>(best, distance)\<close> as accumulator. The
  ranking function \<open>(Resources).ScaledDistance\<close> is not among the source files and is
  a parameter \<open>sd\<close>.
\<close>

fun MaxAvailable_loop ::
  "(Resources \<Rightarrow> Resources \<Rightarrow> real) \<Rightarrow> instanceState \<Rightarrow> int \<Rightarrow> Resources \<Rightarrow> bool \<Rightarrow>
   instanceConfig list \<Rightarrow> instanceConfig \<times> real \<Rightarrow> instanceConfig \<times> real" where
  "MaxAvailable_loop sd s now need spot [] acc = acc"
| "MaxAvailable_loop sd s now need spot (config # rest) (best, distance) =
     (if skipped s now spot config then MaxAvailable_loop sd s now need spot rest (best, distance)
      else if \<not> Available (Resources config) need
        then MaxAvailable_loop sd s now need spot rest (best, distance)
      else if sd (Resources config) need > distance
        then MaxAvailable_loop sd s now need spot rest (config, sd (Resources config) need)
      else MaxAvailable_loop sd s now need spot rest (best, distance))"

definition MaxAvailable ::
  "(Resources \<Rightarrow> Resources \<Rightarrow> real) \<Rightarrow> instanceState \<Rightarrow> int \<Rightarrow> Resources \<Rightarrow> bool \<Rightarrow>
   instanceConfig \<times> bool" where
  "MaxAvailable sd s now need spot =
     (let best = fst (MaxAvailable_loop sd s now need spot (configs s) (zero_config, - MaxFloat64))
      in (best, Available (Resources best) need))"

text \<open>\<open>config.Price[s.region]\<close> read without the presence flag.\<close>

definition price_in :: "instanceConfig \<Rightarrow> string \<Rightarrow> real" where
  "price_in config r = (case Price config r of None \<Rightarrow> 0 | Some p \<Rightarrow> p)"

text \<open>
  The first loop of \<open>MinAvailable\<close>: it collects the viable configs and tracks the
  cheapest. The accumulator is \<open>(viable, best, bestPrice)\<close>.
\<close>

fun MinAvailable_scan ::
  "instanceState \<Rightarrow> int \<Rightarrow> Resources \<Rightarrow> bool \<Rightarrow> instanceConfig list \<Rightarrow>
   instanceConfig list \<times> instanceConfig \<times> real \<Rightarrow> instanceConfig list \<times> instanceConfig \<times> real" where
  "MinAvailable_scan s now need spot [] acc = acc"
| "MinAvailable_scan s now need spot (config # rest) (viable, best, bestPrice) =
     (if skipped s now spot config then MinAvailable_scan s now need spot rest (viable, best, bestPrice)
      else if \<not> Available (Resources config) need
        then MinAvailable_scan s now need spot rest (viable, best, bestPrice)
      else (case Price config (region s) of
          None \<Rightarrow> MinAvailable_scan s now need spot rest (viable, best, bestPrice)
        | Some price \<Rightarrow>
            (if price < bestPrice
             then MinAvailable_scan s now need spot rest (viable @ [config], config, price)
             else MinAvailable_scan s now need spot rest (viable @ [config], best, bestPrice))))"

text \<open>
  One iteration of the second loop of \<open>MinAvailable\<close> on \<open>(best, bestPrice, found)\<close>:
  the two \<open>if\<close> statements run one after the other. The sum
  \<open>bestPrice+ebsThroughputPremiumCost\<close> and the two products are \<open>float64\<close>
  operations; the constant expressions \<open>1.0+ebsThroughputPremiumPct/100\<close> and
  \<open>1.0+ebsThroughputBenefitPct/100\<close> are evaluated exactly and then converted.
\<close>

definition MinAvailable_step ::
  "string \<Rightarrow> instanceConfig \<Rightarrow> instanceConfig \<times> real \<times> bool \<Rightarrow> instanceConfig \<times> real \<times> bool" where
  "MinAvailable_step r config acc =
     (case acc of (best, bestPrice, found) \<Rightarrow>
        let price = price_in config r;
            acc1 = (if \<not> found \<and>
                       (f64_less price (f64_add bestPrice (f64_const ebsThroughputPremiumCost)) \<or>
                        f64_less price
                          (f64_mul bestPrice (f64_const (1.0 + ebsThroughputPremiumPct / 100)))) \<and>
                       f64_greater (EBSThroughput config)
                         (f64_mul (EBSThroughput best) (f64_const (1.0 + ebsThroughputBenefitPct / 100)))
                    then (config, price, True) else (best, bestPrice, found))
        in (case acc1 of (best1, bestPrice1, found1) \<Rightarrow>
              if found1 \<and> price < bestPrice1 \<and> EBSThroughput config \<ge> EBSThroughput best1
              then (config, price, found1) else (best1, bestPrice1, found1)))"

fun MinAvailable_adjust ::
  "string \<Rightarrow> instanceConfig list \<Rightarrow> instanceConfig \<times> real \<times> bool \<Rightarrow> instanceConfig \<times> real \<times> bool" where
  "MinAvailable_adjust r [] acc = acc"
| "MinAvailable_adjust r (config # rest) acc = MinAvailable_adjust r rest (MinAvailable_step r config acc)"

definition MinAvailable ::
  "instanceState \<Rightarrow> int \<Rightarrow> Resources \<Rightarrow> bool \<Rightarrow> instanceConfig \<times> bool" where
  "MinAvailable s now need spot =
     (case MinAvailable_scan s now need spot (configs s) ([], zero_config, MaxFloat64) of
        (viable, best0, bestPrice0) \<Rightarrow>
          let best = fst (MinAvailable_adjust (region s) viable (best0, bestPrice0, False))
          in (best, Available (Resources best) need))"

text \<open>The loop of \<open>Type\<close>: the first config of the given name.\<close>

fun Type_loop :: "string \<Rightarrow> instanceConfig list \<Rightarrow> instanceConfig \<times> bool" where
  "Type_loop typ [] = (zero_config, False)"
| "Type_loop typ (config # rest) = (if Type config = typ then (config, True) else Type_loop typ rest)"

definition Type_of :: "instanceState \<Rightarrow> int \<Rightarrow> string \<Rightarrow> instanceConfig \<times> bool" where
  "Type_of s now typ =
     (if Since now (unavailable s typ) < sleepTime s then (zero_config, False)
      else Type_loop typ (configs s))"

text \<open>
  A config is viable for a query when the first loop of \<open>MinAvailable\<close> keeps it: it is
  not marked unavailable within the sleep window, it is spot-eligible when spot is asked
  for, it satisfies the need and it has a price in the region.
\<close>

definition viable_config :: "instanceState \<Rightarrow> int \<Rightarrow> Resources \<Rightarrow> bool \<Rightarrow> instanceConfig \<Rightarrow> bool" where
  "viable_config s now need spot config =
     (\<not> skipped s now spot config \<and> Available (Resources config) need \<and>
      Price config (region s) \<noteq> None)"

section \<open>The launch state machine (ec2cluster/instance.go)\<close>

subsection \<open>Errors\<close>

text \<open>
  Modelled from the spec: the package \<open>reflow/errors\<close> is code of this repository that
  is not among the source files. The spec names the kinds Temporary, Timeout,
  Unavailable, Fatal, NotExist and Net; every other error is "unknown". An error value
  is modelled by what the launch loop reads of it: the kind that \<open>errors.Recover\<close>
  reports, the code when the value is an \<open>awserr.Error\<close> (so that the type assertion
  \<open>i.err.(awserr.Error)\<close> succeeds), and its message.
\<close>

datatype Kind = KOther | KTemporary | KTimeout | KUnavailable | KFatal | KNotExist | KNet

record error =
  err_kind :: Kind
  err_code :: "string option"
  err_msg :: string

text \<open>
  \<open>errors.E(kind, err)\<close> wraps an error into one of the given kind; the result is not
  an \<open>awserr.Error\<close>. \<open>errors.E(kind, msg)\<close>, \<open>errors.New\<close> and \<open>errors.Errorf\<close> make
  an error from a message.
\<close>

definition errors_E :: "Kind \<Rightarrow> error \<Rightarrow> error" where
  "errors_E kind e = \<lparr> err_kind = kind, err_code = None, err_msg = err_msg e \<rparr>"

definition errors_New :: "string \<Rightarrow> error" where
  "errors_New msg = \<lparr> err_kind = KOther, err_code = None, err_msg = msg \<rparr>"

definition errors_Emsg :: "Kind \<Rightarrow> string \<Rightarrow> error" where
  "errors_Emsg kind msg = \<lparr> err_kind = kind, err_code = None, err_msg = msg \<rparr>"

definition errors_Is :: "Kind \<Rightarrow> error \<Rightarrow> bool" where
  "errors_Is kind e = (err_kind e = kind)"

text \<open>\<open>strings.HasSuffix(s, suffix)\<close>.\<close>

definition HasSuffix :: "string \<Rightarrow> string \<Rightarrow> bool" where
  "HasSuffix s suf = (length suf \<le> length s \<and> drop (length s - length suf) s = suf)"

subsection \<open>The instance and its tags\<close>

text \<open>
  Of \<open>ec2.Instance\<close> the loop reads the public DNS name (a pointer, nil or a string)
  and the tags (pairs of key and value).
\<close>

record ec2_Instance =
  PublicDnsName :: "string option"
  Tags :: "(string \<times> string) list"

record reflowletInstance =
  Instance :: ec2_Instance
  Version :: string
  Digest :: string

text \<open>
  The loop of \<open>(*reflowletInstance).update\<close> on the pair \<open>(Version, Digest)\<close>: it stops
  at the first tag after which both are set.
\<close>

fun update_loop :: "(string \<times> string) list \<Rightarrow> string \<times> string \<Rightarrow> string \<times> string" where
  "update_loop [] acc = acc"
| "update_loop (tag # rest) (version, dig) =
     (let version1 = (if fst tag = ''reflowlet:version'' then snd tag else version);
          dig1 = (if fst tag = ''reflowlet:digest'' then snd tag else dig)
      in if dig1 \<noteq> [] \<and> version1 \<noteq> [] then (version1, dig1)
         else update_loop rest (version1, dig1))"

definition newReflowletInstance :: "ec2_Instance \<Rightarrow> reflowletInstance" where
  "newReflowletInstance inst =
     (let vd = update_loop (Tags inst) ([], [])
      in \<lparr> Instance = inst, Version = fst vd, Digest = snd vd \<rparr>)"

subsection \<open>The state of a launch\<close>

text \<open>
  The fields of the Go struct \<open>instance\<close> that \<open>Go\<close> reads or writes (\<open>Spot\<close>,
  \<open>SpotProbeDepth\<close>, \<open>NEBS\<close>, \<open>EBSType\<close>, \<open>EBSSize\<close>, \<open>err\<close>, \<open>ec2inst\<close>), followed by
  the local variables of \<open>Go\<close> (\<open>state\<close>, \<open>id\<close>, \<open>dns\<close>, \<open>n\<close>, \<open>d\<close>). \<open>tick\<close> counts
  the iterations of the loop. \<open>attempts\<close> lists the states whose case was run and
  \<open>slept\<close> the durations passed to \<open>time.Sleep\<close>, both in order: they record the
  effects of the run.
\<close>

record instance_t =
  Spot :: bool
  SpotProbeDepth :: int
  NEBS :: int
  EBSType :: string
  EBSSize :: nat
  err :: "error option"
  ec2inst :: "ec2_Instance option"
  state :: nat
  inst_id :: string
  dns :: string
  n :: int
  d :: int
  tick :: nat
  attempts :: "nat list"
  slept :: "int list"

definition stateCapacity :: nat where "stateCapacity = 0"
definition stateLaunch :: nat where "stateLaunch = 1"
definition stateTag :: nat where "stateTag = 2"
definition stateWaitInstance :: nat where "stateWaitInstance = 3"
definition stateDescribeDns :: nat where "stateDescribeDns = 4"
definition stateWaitReflowlet :: nat where "stateWaitReflowlet = 5"
definition stateDescribeTags :: nat where "stateDescribeTags = 6"
definition stateUpdateImage :: nat where "stateUpdateImage = 7"
definition stateDone :: nat where "stateDone = 8"

definition maxTries :: int where "maxTries = 5"

definition Second :: int where "Second = 1000000000"

definition minDiskSizes :: "string \<rightharpoonup> nat" where
  "minDiskSizes = [''st1'' \<mapsto> 500, ''gp2'' \<mapsto> 335]"

text \<open>\<open>(*instance).Err\<close> and \<open>(*instance).Instance\<close>; the latter dereferences \<open>i.ec2inst\<close>.\<close>

definition Err :: "instance_t \<Rightarrow> error option" where
  "Err i = err i"

definition Instance_of :: "instance_t \<Rightarrow> reflowletInstance option" where
  "Instance_of i = map_option newReflowletInstance (ec2inst i)"

subsection \<open>The environment\<close>

text \<open>
  What the calls out of \<open>Go\<close> return, as functions of the iteration in which they are
  made: the EC2 API, the reflowlet client, the repository. \<open>ctx_cancelled\<close> is the
  iteration from which \<open>ctx.Err()\<close> is not nil (a context, once done, stays done).
  \<open>imageDigest\<close> is a once-task and returns the same result at every call;
  \<open>digest_Parse\<close> is \<open>digest.Parse\<close> of the digest library. A digest is a natural
  number here.
\<close>

record env =
  ctx_cancelled :: "nat option"
  ctx_error :: error
  ec2HasCapacity :: "nat \<Rightarrow> bool \<times> error option"
  launch :: "nat \<Rightarrow> string \<times> error option"
  CreateTags :: "nat \<Rightarrow> error option"
  WaitUntilInstanceRunning :: "nat \<Rightarrow> error option"
  describeInstance :: "nat \<Rightarrow> error + ec2_Instance"
  client_New :: "nat \<Rightarrow> error option"
  client_Config :: "nat \<Rightarrow> error option"
  imageDigest :: "error + nat"
  digest_Parse :: "string \<Rightarrow> error + nat"
  ReflowConfig_Instance :: "nat \<Rightarrow> error option"
  uploadImage :: "nat \<Rightarrow> error option"
  InstallImage :: "nat \<Rightarrow> error option"

definition ctx_Err :: "env \<Rightarrow> nat \<Rightarrow> error option" where
  "ctx_Err e k =
     (case ctx_cancelled e of None \<Rightarrow> None
      | Some c \<Rightarrow> if c \<le> k then Some (ctx_error e) else None)"

subsection \<open>The body of the loop\<close>

text \<open>
  How a \<open>switch\<close> case ends: it falls out of the \<open>switch\<close> (also by \<open>break\<close>), it
  continues the loop (the \<open>continue\<close> of \<open>stateUpdateImage\<close>), or it panics.
\<close>

datatype flow = Fall instance_t | Continue instance_t | Panic

definition case_stateCapacity :: "env \<Rightarrow> instance_t \<Rightarrow> flow" where
  "case_stateCapacity e i =
     (if \<not> Spot i \<or> SpotProbeDepth i = 0 then Fall i
      else (case ec2HasCapacity e (tick i) of (ok, er) \<Rightarrow>
        if er = None \<and> \<not> ok
        then Fall (i\<lparr> err := Some (errors_E KUnavailable (errors_New ''ec2 capacity is likely exhausted'')) \<rparr>)
        else Fall (i\<lparr> err := er \<rparr>)))"

definition case_stateLaunch :: "env \<Rightarrow> instance_t \<Rightarrow> flow" where
  "case_stateLaunch e i =
     (case launch e (tick i) of (id', er) \<Rightarrow> Fall (i\<lparr> inst_id := id', err := er \<rparr>))"

definition case_stateTag :: "env \<Rightarrow> instance_t \<Rightarrow> flow" where
  "case_stateTag e i = Fall (i\<lparr> err := CreateTags e (tick i) \<rparr>)"

definition case_stateWaitInstance :: "env \<Rightarrow> instance_t \<Rightarrow> flow" where
  "case_stateWaitInstance e i = Fall (i\<lparr> err := WaitUntilInstanceRunning e (tick i) \<rparr>)"

definition case_stateDescribeDns :: "env \<Rightarrow> instance_t \<Rightarrow> flow" where
  "case_stateDescribeDns e i =
     (case describeInstance e (tick i) of
        Inl er \<Rightarrow> Fall (i\<lparr> ec2inst := None, err := Some er \<rparr>)
      | Inr inst \<Rightarrow>
          (case PublicDnsName inst of
             None \<Rightarrow> Fall (i\<lparr> ec2inst := Some inst, err := Some (errors_New ''no public DNS name'') \<rparr>)
           | Some name \<Rightarrow>
               if name = []
               then Fall (i\<lparr> ec2inst := Some inst, err := Some (errors_New ''no public DNS name'') \<rparr>)
               else Fall (i\<lparr> ec2inst := Some inst, err := None, dns := name \<rparr>)))"

definition case_stateWaitReflowlet :: "env \<Rightarrow> instance_t \<Rightarrow> flow" where
  "case_stateWaitReflowlet e i =
     (case client_New e (tick i) of
        Some er \<Rightarrow> Fall (i\<lparr> err := Some (errors_E KFatal er) \<rparr>)
      | None \<Rightarrow>
          (case client_Config e (tick i) of
             None \<Rightarrow> Fall (i\<lparr> err := None \<rparr>)
           | Some er \<Rightarrow>
               if HasSuffix (err_msg er) ''connection refused''
               then Fall (i\<lparr> err := Some (errors_E KTemporary er) \<rparr>)
               else Fall (i\<lparr> err := Some er \<rparr>)))"

definition case_stateDescribeTags :: "env \<Rightarrow> instance_t \<Rightarrow> flow" where
  "case_stateDescribeTags e i =
     (case describeInstance e (tick i) of
        Inl er \<Rightarrow> Fall (i\<lparr> ec2inst := None, err := Some (errors_Emsg KTemporary ''describe instance'') \<rparr>)
      | Inr inst \<Rightarrow>
          (let i1 = i\<lparr> ec2inst := Some inst, err := None \<rparr>;
               ri = newReflowletInstance inst
           in if Version ri = [] \<or> Digest ri = []
              then Fall (i1\<lparr> err := Some (errors_Emsg KTemporary ''version/digest unavailable'') \<rparr>)
              else (case imageDigest e of
                  Inl er \<Rightarrow> Fall (i1\<lparr> err := Some (errors_Emsg KFatal ''parse local digest'') \<rparr>)
                | Inr localDigest \<Rightarrow>
                    (case digest_Parse e (Digest ri) of
                       Inl er \<Rightarrow> Fall (i1\<lparr> err := Some (errors_Emsg KFatal ''parse remote digest'') \<rparr>)
                     | Inr remoteDigest \<Rightarrow>
                         if remoteDigest = localDigest then Fall (i1\<lparr> state := stateDone \<rparr>)
                         else Fall i1))))"

text \<open>
  \<open>stateUpdateImage\<close> first dereferences \<open>*i.ec2inst.PublicDnsName\<close>, which panics on
  nil. Every error of the case is wrapped as Fatal, but a connection-level (Net) error
  of \<open>InstallImage\<close>, which is passed over.
\<close>

definition case_stateUpdateImage :: "env \<Rightarrow> instance_t \<Rightarrow> flow" where
  "case_stateUpdateImage e i =
     (case ec2inst i of None \<Rightarrow> Panic
      | Some inst \<Rightarrow>
     (case PublicDnsName inst of None \<Rightarrow> Panic
      | Some name \<Rightarrow>
     (case client_New e (tick i) of
        Some er \<Rightarrow> Fall (i\<lparr> err := Some (errors_E KFatal er) \<rparr>)
      | None \<Rightarrow>
     (case ReflowConfig_Instance e (tick i) of
        Some er \<Rightarrow> Fall (i\<lparr> err := Some (errors_E KFatal er) \<rparr>)
      | None \<Rightarrow>
     (case uploadImage e (tick i) of
        Some er \<Rightarrow> Fall (i\<lparr> err := Some (errors_E KFatal er) \<rparr>)
      | None \<Rightarrow>
     (case InstallImage e (tick i) of
        None \<Rightarrow> Continue (i\<lparr> state := stateWaitReflowlet \<rparr>)
      | Some er \<Rightarrow>
          if \<not> errors_Is KNet er then Fall (i\<lparr> err := Some (errors_E KFatal er) \<rparr>)
          else Continue (i\<lparr> state := stateWaitReflowlet \<rparr>)))))))"

definition switch_state :: "env \<Rightarrow> instance_t \<Rightarrow> flow" where
  "switch_state e i =
     (if state i = stateCapacity then case_stateCapacity e i
      else if state i = stateLaunch then case_stateLaunch e i
      else if state i = stateTag then case_stateTag e i
      else if state i = stateWaitInstance then case_stateWaitInstance e i
      else if state i = stateDescribeDns then case_stateDescribeDns e i
      else if state i = stateWaitReflowlet then case_stateWaitReflowlet e i
      else if state i = stateDescribeTags then case_stateDescribeTags e i
      else if state i = stateUpdateImage then case_stateUpdateImage e i
      else Panic)"

text \<open>
  The codes that the EC2 documentation gives for capacity issues; a raw AWS error with
  one of them is replaced by an Unavailable error.
\<close>

definition capacity_codes :: "string list" where
  "capacity_codes = [''InsufficientCapacity'', ''InsufficientInstanceCapacity'',
     ''InsufficientHostCapacity'', ''InsufficientReservedInstanceCapacity'',
     ''InstanceLimitExceeded'']"

definition reclassify :: "error \<Rightarrow> error" where
  "reclassify er =
     (case err_code er of
        None \<Rightarrow> er
      | Some code \<Rightarrow> if code \<in> set capacity_codes then errors_E KUnavailable er else er)"

text \<open>
  How an iteration ends: the loop goes on, the loop is left by \<open>break\<close>, \<open>Go\<close> returns
  from inside the loop, or it panics.
\<close>

datatype step = Next instance_t | Break instance_t | Return instance_t | Panicked

text \<open>The code after the \<open>switch\<close>.\<close>

definition after_switch :: "instance_t \<Rightarrow> step" where
  "after_switch i =
     (case err i of
        None \<Rightarrow> Next (i\<lparr> n := 0, d := 5 * Second, state := state i + 1 \<rparr>)
      | Some er0 \<Rightarrow>
          if n i = maxTries then Break i
          else (let er = reclassify er0; i1 = i\<lparr> err := Some er \<rparr>
                in if errors_Is KFatal er then Return i1
                   else if errors_Is KUnavailable er then Return i1
                   else Next (i1\<lparr> slept := slept i1 @ [d i1], n := n i1 + 1, d := d i1 * 2 \<rparr>)))"

definition Go_body :: "env \<Rightarrow> instance_t \<Rightarrow> step" where
  "Go_body e i =
     (case switch_state e (i\<lparr> attempts := attempts i @ [state i] \<rparr>) of
        Panic \<Rightarrow> Panicked
      | Continue i1 \<Rightarrow> Next i1
      | Fall i1 \<Rightarrow> after_switch i1)"

text \<open>The code after the loop.\<close>

definition Go_finish :: "env \<Rightarrow> instance_t \<Rightarrow> instance_t" where
  "Go_finish e i = (if err i \<noteq> None then i else i\<lparr> err := ctx_Err e (tick i) \<rparr>)"

text \<open>
  The result of \<open>Go\<close>: the instance as \<open>Go\<close> leaves it, or a panic. The loop can run
  forever (an image that never matches is updated again and again), so it takes fuel:
  \<open>None\<close> says that the fuel did not suffice.
\<close>

datatype outcome = Returned instance_t | Crashed

fun Go_loop :: "env \<Rightarrow> nat \<Rightarrow> instance_t \<Rightarrow> outcome option" where
  "Go_loop e 0 i = None"
| "Go_loop e (Suc fuel) i =
     (if state i < stateDone \<and> ctx_Err e (tick i) = None
      then (case Go_body e i of
              Next i1 \<Rightarrow> Go_loop e fuel (i1\<lparr> tick := tick i1 + 1 \<rparr>)
            | Break i1 \<Rightarrow> Some (Returned (Go_finish e i1))
            | Return i1 \<Rightarrow> Some (Returned i1)
            | Panicked \<Rightarrow> Some Crashed)
      else Some (Returned (Go_finish e i)))"

text \<open>The adjustments of \<open>NEBS\<close> and \<open>EBSSize\<close> before the loop, and the initial locals.\<close>

definition Go_init :: "instance_t \<Rightarrow> instance_t" where
  "Go_init i =
     (let i1 = (if NEBS i < 1 then i\<lparr> NEBS := 1 \<rparr> else i);
          i2 = (case minDiskSizes (EBSType i1) of
                  None \<Rightarrow> i1
                | Some min_size \<Rightarrow>
                    (let i3 = (if EBSSize i1 < min_size then i1\<lparr> EBSSize := min_size \<rparr> else i1);
                         nmin = int (EBSSize i3 div min_size)
                     in if NEBS i3 > nmin then i3\<lparr> NEBS := nmin \<rparr> else i3))
      in i2\<lparr> state := stateCapacity, inst_id := [], dns := [], n := 0, d := 5 * Second,
             tick := 0, attempts := [], slept := [] \<rparr>)"

definition Go :: "env \<Rightarrow> nat \<Rightarrow> instance_t \<Rightarrow> outcome option" where
  "Go e fuel i = Go_loop e fuel (Go_init i)"

section \<open>Spot requests (ec2cluster/instance.go)\<close>




subsection \<open>The waiter\<close>











subsection \<open>The spot launch\<close>






section \<open>The task database (taskdb/dynamodbtask/dynamodb.go)\<close>

subsection \<open>Times and their serialized forms\<close>

text \<open>
  A \<open>time.Time\<close> is a count of nanoseconds since the Unix epoch, in UTC. The string that
  \<open>Format(timeLayout)\<close> (RFC 3339, whole seconds) writes is modelled by the count of
  seconds, and the string that \<open>Format(dateLayout)\<close> writes by the count of days: for
  UTC times of four-digit years the strings compare as these counts do.
\<close>

definition Day :: int where
  "Day = 86400 * Second"

definition Format_timeLayout :: "int \<Rightarrow> int" where
  "Format_timeLayout t = t div Second"

definition Format_dateLayout :: "int \<Rightarrow> int" where
  "Format_dateLayout t = t div Day"

text \<open>The zero \<open>time.Time\<close> is the first instant of year 1.\<close>

definition zero_Time :: int where
  "zero_Time = - 62135596800 * Second"

definition date :: "int \<Rightarrow> int" where
  "date t = t - t mod Day"

function dates_loop :: "int \<Rightarrow> int \<Rightarrow> int list" where
  "dates_loop beg en = (if en < beg then [] else beg # dates_loop (beg + Day) en)"
  by pat_completeness auto
termination
  by (relation "measure (\<lambda>(beg, en). nat (en - beg + 1))") (auto simp: Day_def Second_def)

definition dates :: "int \<Rightarrow> int \<Rightarrow> int list" where
  "dates beg en = dates_loop (date beg) (date en)"

subsection \<open>The table\<close>

text \<open>
  An attribute value of a request: a string, a serialized time or a serialized date.
\<close>

datatype AttributeValue = S string | TimeS int | DateS int

text \<open>
  A row of the one wide table, with a field for each column that the package writes
  (the Go constants \<open>colID\<close>, ..., \<open>colDate\<close> name the columns); \<open>None\<close> is an absent
  attribute. \<open>colLabels\<close> is a string set.
\<close>

record item =
  colID :: "string option"
  colID4 :: "string option"
  colRunID :: "string option"
  colRunID4 :: "string option"
  colFlowID :: "string option"
  colResultID :: "string option"
  colKeepalive :: "int option"
  colStartTime :: "int option"
  colStdout :: "string option"
  colStderr :: "string option"
  colInspect :: "string option"
  colURI :: "string option"
  colLabels :: "string list option"
  colUser :: "string option"
  colType :: "string option"
  colDate :: "int option"

definition empty_item :: item where
  "empty_item = \<lparr> colID = None, colID4 = None, colRunID = None, colRunID4 = None,
     colFlowID = None, colResultID = None, colKeepalive = None, colStartTime = None,
     colStdout = None, colStderr = None, colInspect = None, colURI = None, colLabels = None,
     colUser = None, colType = None, colDate = None \<rparr>"

text \<open>The attribute of a row under a column name, as a request value.\<close>

definition item_attr :: "item \<Rightarrow> string \<Rightarrow> AttributeValue option" where
  "item_attr it col =
     (if col = ''ID'' then map_option S (colID it)
      else if col = ''ID4'' then map_option S (colID4 it)
      else if col = ''RunID'' then map_option S (colRunID it)
      else if col = ''RunID4'' then map_option S (colRunID4 it)
      else if col = ''FlowID'' then map_option S (colFlowID it)
      else if col = ''ResultID'' then map_option S (colResultID it)
      else if col = ''Keepalive'' then map_option TimeS (colKeepalive it)
      else if col = ''StartTime'' then map_option TimeS (colStartTime it)
      else if col = ''Stdout'' then map_option S (colStdout it)
      else if col = ''Stderr'' then map_option S (colStderr it)
      else if col = ''Inspect'' then map_option S (colInspect it)
      else if col = ''URI'' then map_option S (colURI it)
      else if col = ''User'' then map_option S (colUser it)
      else if col = ''Type'' then map_option S (colType it)
      else if col = ''Date'' then map_option DateS (colDate it)
      else None)"

text \<open>
  The libraries are not among the source files. Of the digest library, \<open>String\<close>,
  \<open>HexN\<close>, \<open>IsZero\<close>, \<open>IsAbbrev\<close> and \<open>Expands\<close> of a digest, the two parsers
  \<open>digest.Parse\<close> and \<open>reflow.Digester.Parse\<close>, and the zero value of
  \<open>digest.Digest\<close> are parameters, over any type of digests; a parser that fails
  returns an error and, it is taken here, the zero digest. \<open>tParse\<close> is
  \<open>time.Parse(timeLayout, _)\<close> on the string of a count of seconds: the time, or
  \<open>None\<close> for an error.
\<close>

record 'd digest_lib =
  dString :: "'d \<Rightarrow> string"
  dHexN :: "'d \<Rightarrow> nat \<Rightarrow> string"
  dIsZero :: "'d \<Rightarrow> bool"
  dIsAbbrev :: "'d \<Rightarrow> bool"
  dExpands :: "'d \<Rightarrow> 'd \<Rightarrow> bool"
  dParse :: "string \<Rightarrow> 'd option"
  dDigesterParse :: "string \<Rightarrow> 'd option"
  dZero :: 'd
  tParse :: "int \<Rightarrow> int option"

text \<open>
  \<open>TaskDB\<close>: \<open>DB\<close> is the content of the table \<open>TableName\<close> behind the DynamoDB
  client, a list of rows with distinct \<open>ID\<close>s. Calls to the service succeed.
\<close>

record TaskDB =
  DB :: "item list"
  TableName :: string
  Labels :: "string list"
  User :: string

text \<open>
  \<open>PutItem\<close> replaces the row of the same primary key, or adds the row.
  \<open>UpdateItem\<close> with a \<open>SET\<close> expression edits the attributes of the row of the given
  key, or adds a row that has the key and the set attributes only.
\<close>

fun PutItem :: "item list \<Rightarrow> item \<Rightarrow> item list" where
  "PutItem [] new = [new]"
| "PutItem (it # rest) new = (if colID it = colID new then new # rest else it # PutItem rest new)"

fun UpdateItem :: "item list \<Rightarrow> string \<Rightarrow> (item \<Rightarrow> item) \<Rightarrow> item list" where
  "UpdateItem [] key upd = [upd (empty_item\<lparr> colID := Some key \<rparr>)]"
| "UpdateItem (it # rest) key upd =
     (if colID it = Some key then upd it # rest else it # UpdateItem rest key upd)"

subsection \<open>Writes\<close>

definition CreateRun :: "'d digest_lib \<Rightarrow> TaskDB \<Rightarrow> int \<Rightarrow> 'd \<Rightarrow> string \<Rightarrow> TaskDB" where
  "CreateRun lib t now id' user =
     t\<lparr> DB := PutItem (DB t) (empty_item\<lparr>
        colID := Some (dString lib id'),
        colID4 := Some (dHexN lib id' 4),
        colLabels := Some (Labels t),
        colUser := Some user,
        colType := Some ''run'',
        colStartTime := Some (Format_timeLayout now) \<rparr>) \<rparr>"

definition CreateTask :: "'d digest_lib \<Rightarrow> TaskDB \<Rightarrow> int \<Rightarrow> 'd \<Rightarrow> 'd \<Rightarrow> 'd \<Rightarrow> string \<Rightarrow> TaskDB" where
  "CreateTask lib t now id' runid flowid uri =
     t\<lparr> DB := PutItem (DB t) (empty_item\<lparr>
        colID := Some (dString lib id'),
        colID4 := Some (dHexN lib id' 4),
        colRunID := Some (dString lib runid),
        colRunID4 := Some (dHexN lib runid 4),
        colFlowID := Some (dString lib flowid),
        colType := Some ''task'',
        colStartTime := Some (Format_timeLayout now),
        colURI := Some uri,
        colLabels := Some (Labels t) \<rparr>) \<rparr>"

definition SetTaskResult :: "'d digest_lib \<Rightarrow> TaskDB \<Rightarrow> 'd \<Rightarrow> 'd \<Rightarrow> TaskDB" where
  "SetTaskResult lib t id' result =
     t\<lparr> DB := UpdateItem (DB t) (dString lib id')
        (\<lambda>it. it\<lparr> colResultID := Some (dString lib result) \<rparr>) \<rparr>"

definition SetTaskAttrs :: "'d digest_lib \<Rightarrow> TaskDB \<Rightarrow> 'd \<Rightarrow> 'd \<Rightarrow> 'd \<Rightarrow> 'd \<Rightarrow> TaskDB" where
  "SetTaskAttrs lib t id' stdout stderr inspect =
     t\<lparr> DB := UpdateItem (DB t) (dString lib id')
        (\<lambda>it. it\<lparr> colStdout := Some (dString lib stdout), colStderr := Some (dString lib stderr),
                  colInspect := Some (dString lib inspect) \<rparr>) \<rparr>"

text \<open>
  \<open>Keepalive\<close>: one \<open>UpdateItem\<close> whose expression sets \<open>Keepalive\<close> and \<open>Date\<close>.
\<close>

definition Keepalive :: "'d digest_lib \<Rightarrow> TaskDB \<Rightarrow> 'd \<Rightarrow> int \<Rightarrow> TaskDB" where
  "Keepalive lib t id' keepalive =
     t\<lparr> DB := UpdateItem (DB t) (dString lib id')
        (\<lambda>it. it\<lparr> colKeepalive := Some (Format_timeLayout keepalive),
                  colDate := Some (Format_dateLayout keepalive) \<rparr>) \<rparr>"

subsection \<open>Queries\<close>

text \<open>\<open>taskdb.Query\<close>, whose declaration is not among the source files.\<close>

record 'd Query_t =
  q_ID :: 'd
  q_RunID :: 'd
  q_Since :: int
  q_User :: string

record QueryInput =
  IndexName :: string
  KeyConditionExpression :: string
  ExpressionAttributeValues :: "string \<rightharpoonup> AttributeValue"
  ExpressionAttributeNames :: "string \<rightharpoonup> string"
  FilterExpression :: "string option"

datatype objType = run | task

definition objType_string :: "objType \<Rightarrow> string" where
  "objType_string typ = (case typ of run \<Rightarrow> ''run'' | task \<Rightarrow> ''task'')"

text \<open>The result of a call that can fail with an error or panic.\<close>

datatype 'a call = Ok 'a | Failed string | Panics string

definition buildRunIdQuery :: "'d digest_lib \<Rightarrow> 'd Query_t \<Rightarrow> QueryInput list" where
  "buildRunIdQuery lib q =
     [\<lparr> IndexName = ''RunID-index'', KeyConditionExpression = ''RunID = :rid'',
        ExpressionAttributeValues = ['':rid'' \<mapsto> S (dString lib (q_RunID q))],
        ExpressionAttributeNames = Map.empty, FilterExpression = None \<rparr>]"

definition buildIdQuery :: "'d digest_lib \<Rightarrow> 'd Query_t \<Rightarrow> objType \<Rightarrow> QueryInput list" where
  "buildIdQuery lib q typ =
     (if dIsAbbrev lib (q_ID q)
      then [\<lparr> IndexName = ''ID4-ID-index'', KeyConditionExpression = ''ID4 = :id4'',
               ExpressionAttributeValues =
                 ['':id4'' \<mapsto> S (dHexN lib (q_ID q) 4), '':type'' \<mapsto> S (objType_string typ)],
               ExpressionAttributeNames = [''#Type'' \<mapsto> ''Type''],
               FilterExpression = Some ''#Type = :type'' \<rparr>]
      else [\<lparr> IndexName = ''ID-index'', KeyConditionExpression = ''ID = :testId'',
               ExpressionAttributeValues =
                 ['':testId'' \<mapsto> S (dString lib (q_ID q)), '':type'' \<mapsto> S (objType_string typ)],
               ExpressionAttributeNames = [''#Type'' \<mapsto> ''Type''],
               FilterExpression = Some ''#Type = :type'' \<rparr>])"

text \<open>\<open>strings.Join(elems, sep)\<close>.\<close>

fun Join :: "string list \<Rightarrow> string \<Rightarrow> string" where
  "Join [] sep = []"
| "Join [x] sep = x"
| "Join (x # y # rest) sep = x @ sep @ Join (y # rest) sep"

text \<open>
  The filter of a time-bucket query: the expression parts with their attribute values
  and names, for the user of the query and, for runs, the type.
\<close>

definition bucket_filter ::
  "'d Query_t \<Rightarrow> objType \<Rightarrow> string list \<times> (string \<rightharpoonup> AttributeValue) \<times> (string \<rightharpoonup> string)" where
  "bucket_filter q typ =
     (let f1 = (if q_User q \<noteq> [] then [''#User = :user''] else []);
          v1 = (if q_User q \<noteq> [] then ['':user'' \<mapsto> S (q_User q)] else Map.empty);
          n1 = (if q_User q \<noteq> [] then [''#User'' \<mapsto> ''User''] else Map.empty);
          f2 = (if typ = run then f1 @ [''#Type = :type''] else f1);
          v2 = (if typ = run then v1('':type'' \<mapsto> S (objType_string typ)) else v1);
          n2 = (if typ = run then n1(''#Type'' \<mapsto> ''Type'') else n1)
      in (f2, v2, n2))"

definition bucket_query ::
  "string list \<times> (string \<rightharpoonup> AttributeValue) \<times> (string \<rightharpoonup> string) \<Rightarrow> int \<Rightarrow> int \<Rightarrow> QueryInput" where
  "bucket_query flt since day =
     (case flt of (filterExpression, attributeValues, attributeNames) \<Rightarrow>
        \<lparr> IndexName = ''Date-Keepalive-index'',
          KeyConditionExpression = ''#Date = :date and Keepalive > :ka '',
          ExpressionAttributeValues =
            ['':date'' \<mapsto> DateS (Format_dateLayout day), '':ka'' \<mapsto> TimeS (Format_timeLayout since)]
              ++ attributeValues,
          ExpressionAttributeNames = [''#Date'' \<mapsto> ''Date''] ++ attributeNames,
          FilterExpression =
            (if filterExpression \<noteq> [] then Some (Join filterExpression '' and '') else None) \<rparr>)"

text \<open>
  \<open>buildQueries\<close> at the time \<open>now\<close>. When no date lies between the date of \<open>Since\<close>
  and today, the code after the \<open>if len(timeBuckets) > 0\<close> block builds one query from
  \<open>keyExpression\<close>, which was never assigned.
\<close>

definition buildQueries :: "'d digest_lib \<Rightarrow> int \<Rightarrow> 'd Query_t \<Rightarrow> objType \<Rightarrow> QueryInput list call" where
  "buildQueries lib now q typ =
     (if \<not> dIsZero lib (q_ID q) then Ok (buildIdQuery lib q typ)
      else if \<not> dIsZero lib (q_RunID q) \<and> typ = run then Panics ''taskdb invalid query''
      else if q_Since q = zero_Time then Panics ''taskdb invalid query: missing since''
      else (let keyExpression = [];
                since = q_Since q;
                timeBuckets = dates since now;
                flt = bucket_filter q typ
            in if length timeBuckets > 0
               then Ok (map (bucket_query flt since) timeBuckets)
               else (case flt of (filterExpression, attributeValues, attributeNames) \<Rightarrow>
                 Ok [\<lparr> IndexName = ''Date-Keepalive-index'',
                       KeyConditionExpression = keyExpression,
                       ExpressionAttributeValues = attributeValues,
                       ExpressionAttributeNames = attributeNames,
                       FilterExpression =
                         (if filterExpression \<noteq> [] then Some (Join filterExpression '' and '') else None) \<rparr>])))"

subsection \<open>The service\<close>

text \<open>
  A model of the DynamoDB \<open>Query\<close> operation on the table, for the expressions that this
  package builds. A placeholder \<open>#name\<close> stands for the column that
  \<open>ExpressionAttributeNames\<close> gives it, a placeholder \<open>:value\<close> for the value that
  \<open>ExpressionAttributeValues\<close> gives it. The service rejects any other key condition,
  the empty one included, with a \<open>ValidationException\<close>.
\<close>

definition attr_equals :: "QueryInput \<Rightarrow> item \<Rightarrow> string \<Rightarrow> string \<Rightarrow> bool" where
  "attr_equals qi it col val =
     (case ExpressionAttributeValues qi val of
        None \<Rightarrow> False
      | Some v \<Rightarrow> item_attr it col = Some v)"

definition named_equals :: "QueryInput \<Rightarrow> item \<Rightarrow> string \<Rightarrow> string \<Rightarrow> bool" where
  "named_equals qi it name val =
     (case ExpressionAttributeNames qi name of
        None \<Rightarrow> False
      | Some col \<Rightarrow> attr_equals qi it col val)"

definition keepalive_after :: "QueryInput \<Rightarrow> item \<Rightarrow> bool" where
  "keepalive_after qi it =
     (case ExpressionAttributeValues qi '':ka'' of
        Some (TimeS ka) \<Rightarrow> (case colKeepalive it of None \<Rightarrow> False | Some k \<Rightarrow> ka < k)
      | _ \<Rightarrow> False)"

definition key_conditions :: "string list" where
  "key_conditions = [''#Date = :date and Keepalive > :ka '', ''ID4 = :id4'', ''ID = :testId'',
     ''RunID = :rid'']"

definition key_holds :: "QueryInput \<Rightarrow> item \<Rightarrow> bool" where
  "key_holds qi it =
     (if KeyConditionExpression qi = ''#Date = :date and Keepalive > :ka ''
        then named_equals qi it ''#Date'' '':date'' \<and> keepalive_after qi it
      else if KeyConditionExpression qi = ''ID4 = :id4'' then attr_equals qi it ''ID4'' '':id4''
      else if KeyConditionExpression qi = ''ID = :testId'' then attr_equals qi it ''ID'' '':testId''
      else if KeyConditionExpression qi = ''RunID = :rid'' then attr_equals qi it ''RunID'' '':rid''
      else False)"

definition filter_expressions :: "string option list" where
  "filter_expressions = [None, Some ''#User = :user'', Some ''#Type = :type'',
     Some ''#User = :user and #Type = :type'']"

definition filter_holds :: "QueryInput \<Rightarrow> item \<Rightarrow> bool" where
  "filter_holds qi it =
     (if FilterExpression qi = None then True
      else if FilterExpression qi = Some ''#User = :user'' then named_equals qi it ''#User'' '':user''
      else if FilterExpression qi = Some ''#Type = :type'' then named_equals qi it ''#Type'' '':type''
      else if FilterExpression qi = Some ''#User = :user and #Type = :type''
        then named_equals qi it ''#User'' '':user'' \<and> named_equals qi it ''#Type'' '':type''
      else False)"

definition QueryWithContext :: "item list \<Rightarrow> QueryInput \<Rightarrow> item list call" where
  "QueryWithContext tbl qi =
     (if KeyConditionExpression qi \<in> set key_conditions \<and> FilterExpression qi \<in> set filter_expressions
      then Ok (filter (\<lambda>it. key_holds qi it \<and> filter_holds qi it) tbl)
      else Failed ''ValidationException'')"

subsection \<open>Runs and Tasks\<close>

text \<open>
  The queries are issued in order, and the first error is returned. (\<open>traverse.Each\<close>
  runs them in parallel; the responses do not depend on the order.)
\<close>

fun issue :: "item list \<Rightarrow> QueryInput list \<Rightarrow> item list list call" where
  "issue tbl [] = Ok []"
| "issue tbl (qi # rest) =
     (case QueryWithContext tbl qi of
        Failed m \<Rightarrow> Failed m
      | Panics m \<Rightarrow> Panics m
      | Ok items \<Rightarrow>
          (case issue tbl rest of
             Failed m \<Rightarrow> Failed m
           | Panics m \<Rightarrow> Panics m
           | Ok responses \<Rightarrow> Ok (items # responses)))"

text \<open>
  The first half of \<open>Runs\<close>: \<open>Runs_queries\<close> are the queries that it passes to
  \<open>QueryWithContext\<close>, one per index \<open>i\<close>, and \<open>Runs_responses\<close> the array
  \<open>responses\<close> when every query succeeded.
\<close>

definition Runs_queries :: "'d digest_lib \<Rightarrow> int \<Rightarrow> 'd Query_t \<Rightarrow> QueryInput list call" where
  "Runs_queries lib now q = buildQueries lib now q run"

definition Runs_responses :: "'d digest_lib \<Rightarrow> TaskDB \<Rightarrow> int \<Rightarrow> 'd Query_t \<Rightarrow> item list list call" where
  "Runs_responses lib t now q =
     (case Runs_queries lib now q of
        Failed m \<Rightarrow> Failed m
      | Panics m \<Rightarrow> Panics m
      | Ok queries \<Rightarrow> issue (DB t) queries)"

text \<open>
  The first half of \<open>Tasks\<close>, likewise. Its function for the index \<open>i\<close> ranges over all
  the queries and stores each response into \<open>responses[i]\<close>: every slot ends up with the
  response to the last query.
\<close>

definition Tasks_queries :: "'d digest_lib \<Rightarrow> int \<Rightarrow> 'd Query_t \<Rightarrow> QueryInput list call" where
  "Tasks_queries lib now q =
     (if \<not> dIsZero lib (q_RunID q) then Ok (buildRunIdQuery lib q)
      else buildQueries lib now q task)"

definition Tasks_responses :: "'d digest_lib \<Rightarrow> TaskDB \<Rightarrow> int \<Rightarrow> 'd Query_t \<Rightarrow> item list list call" where
  "Tasks_responses lib t now q =
     (case Tasks_queries lib now q of
        Failed m \<Rightarrow> Failed m
      | Panics m \<Rightarrow> Panics m
      | Ok queries \<Rightarrow>
          (case issue (DB t) queries of
             Failed m \<Rightarrow> Failed m
           | Panics m \<Rightarrow> Panics m
           | Ok responses \<Rightarrow>
               (case rev responses of
                  [] \<Rightarrow> Ok []
                | lastResponse # others \<Rightarrow> Ok (replicate (length queries) lastResponse))))"

subsection \<open>The conversion of the rows\<close>

text \<open>
  \<open>taskdb.Run\<close> and \<open>taskdb.Task\<close> are declared outside the source files; the records
  have the fields that \<open>Runs\<close> and \<open>Tasks\<close> assign. \<open>pool.Labels\<close>, a Go map from
  strings to strings, is an association list with distinct keys. A time is the count of
  nanoseconds again.
\<close>

record 'd Run =
  Run_ID :: 'd
  Run_Labels :: "(string \<times> string) list"
  Run_User :: string
  Run_Keepalive :: int
  Run_Start :: int

record 'd Task =
  Task_ID :: 'd
  Task_RunID :: 'd
  Task_FlowID :: 'd
  Task_ResultID :: 'd
  Task_URI :: string
  Task_Keepalive :: int
  Task_Start :: int
  Task_Stdout :: 'd
  Task_Stderr :: 'd
  Task_Inspect :: 'd

text \<open>\<open>strings.Split(s, sep)\<close> for a separator of one character.\<close>

primrec Split_loop :: "char \<Rightarrow> string \<Rightarrow> string \<Rightarrow> string list" where
  "Split_loop sep cur [] = [rev cur]"
| "Split_loop sep cur (c # cs) =
     (if c = sep then rev cur # Split_loop sep [] cs else Split_loop sep (c # cur) cs)"

definition Split :: "string \<Rightarrow> char \<Rightarrow> string list" where
  "Split s sep = Split_loop sep [] s"

text \<open>The assignment \<open>l[k] = v\<close> on a Go map.\<close>

fun label_put :: "(string \<times> string) list \<Rightarrow> string \<Rightarrow> string \<Rightarrow> (string \<times> string) list" where
  "label_put [] k v = [(k, v)]"
| "label_put ((k', v') # rest) k v =
     (if k' = k then (k, v) # rest else (k', v') # label_put rest k v)"

text \<open>
  The loop over \<open>it[colLabels].SS\<close> in \<open>Runs\<close>, with the labels and the errors collected
  so far. The messages of the errors are shortened: the text of a library error is left
  out.
\<close>

fun labels_loop ::
  "string list \<Rightarrow> (string \<times> string) list \<times> string list \<Rightarrow> (string \<times> string) list \<times> string list" where
  "labels_loop [] acc = acc"
| "labels_loop (va # rest) (l, errs) =
     (case Split va (CHR ''='') of
        [k, v] \<Rightarrow> labels_loop rest (label_put l k v, errs)
      | _ \<Rightarrow> labels_loop rest (l, errs @ [''label not well formed: '' @ va]))"

text \<open>A parse of a digest: the digest, or the zero digest with an error.\<close>

definition parse_digest ::
  "'d digest_lib \<Rightarrow> (string \<Rightarrow> 'd option) \<Rightarrow> string \<Rightarrow> string \<Rightarrow> 'd \<times> string list" where
  "parse_digest lib parse what s =
     (case parse s of
        None \<Rightarrow> (dZero lib, [''parse '' @ what @ '' '' @ s])
      | Some x \<Rightarrow> (x, []))"

text \<open>A parse of a time: the time, or the zero time with an error.\<close>

definition parse_time :: "'d digest_lib \<Rightarrow> string \<Rightarrow> int \<Rightarrow> int \<times> string list" where
  "parse_time lib what secs =
     (case tParse lib secs of
        None \<Rightarrow> (zero_Time, [''parse '' @ what])
      | Some x \<Rightarrow> (x, []))"

text \<open>
  The parse of an attribute that \<open>Tasks\<close> reads only if it is present
  (\<open>if v, ok := it[col]; ok\<close>): the variable keeps its zero value otherwise.
\<close>

definition parse_present ::
  "'d digest_lib \<Rightarrow> string \<Rightarrow> string option \<Rightarrow> 'd \<times> string list" where
  "parse_present lib what v =
     (case v of None \<Rightarrow> (dZero lib, []) | Some s \<Rightarrow> parse_digest lib (dParse lib) what s)"

text \<open>
  The body of the inner loop of \<open>Runs\<close> for one row. The result is \<open>None\<close> when the
  body dereferences the nil pointer of an absent attribute (\<open>*it[col].S\<close>,
  \<open>it[colLabels].SS\<close>), which panics; otherwise the errors it appends and the run it
  appends, or no run when it leaves by \<open>continue\<close>. The errors of a row are
  appended in the order of the source.
\<close>

definition Runs_row :: "'d digest_lib \<Rightarrow> 'd Query_t \<Rightarrow> item \<Rightarrow> ('d Run option \<times> string list) option" where
  "Runs_row lib q it =
     (case colID it of
        None \<Rightarrow> None
      | Some s \<Rightarrow>
          (let (id', e1) = parse_digest lib (dDigesterParse lib) ''id'' s
           in if \<not> dIsZero lib (q_ID q) \<and> dIsAbbrev lib (q_ID q) \<and> \<not> dExpands lib id' (q_ID q)
              then Some (None, e1)
              else (case colLabels it of
                 None \<Rightarrow> None
               | Some ss \<Rightarrow>
                   (let (l, e2) = labels_loop ss ([], e1)
                    in (case colKeepalive it of
                       None \<Rightarrow> None
                     | Some kas \<Rightarrow>
                         (let (ka, e3) = parse_time lib ''keepalive'' kas
                          in (case colStartTime it of
                             None \<Rightarrow> None
                           | Some sts \<Rightarrow>
                               (let (st, e4) = parse_time lib ''starttime'' sts
                                in (case colUser it of
                                   None \<Rightarrow> None
                                 | Some u \<Rightarrow>
                                     Some (Some \<lparr> Run_ID = id', Run_Labels = l, Run_User = u,
                                                  Run_Keepalive = ka, Run_Start = st \<rparr>,
                                           e2 @ e3 @ e4))))))))))"

text \<open>The two nested loops over the rows of the responses, in order.\<close>

fun Runs_rows ::
  "'d digest_lib \<Rightarrow> 'd Query_t \<Rightarrow> item list \<Rightarrow> 'd Run list \<times> string list \<Rightarrow>
   ('d Run list \<times> string list) option" where
  "Runs_rows lib q [] acc = Some acc"
| "Runs_rows lib q (it # rest) (runs, errs) =
     (case Runs_row lib q it of
        None \<Rightarrow> None
      | Some (None, e) \<Rightarrow> Runs_rows lib q rest (runs, errs @ e)
      | Some (Some r, e) \<Rightarrow> Runs_rows lib q rest (runs @ [r], errs @ e))"

text \<open>
  \<open>Runs\<close>: the runs when no error was collected, and otherwise no run and one error of
  the joined messages.
\<close>

definition Runs :: "'d digest_lib \<Rightarrow> TaskDB \<Rightarrow> int \<Rightarrow> 'd Query_t \<Rightarrow> 'd Run list call" where
  "Runs lib t now q =
     (case Runs_responses lib t now q of
        Failed m \<Rightarrow> Failed m
      | Panics m \<Rightarrow> Panics m
      | Ok responses \<Rightarrow>
          (case Runs_rows lib q (concat responses) ([], []) of
             None \<Rightarrow> Panics ''nil pointer dereference''
           | Some (runs, errs) \<Rightarrow> if errs = [] then Ok runs else Failed (Join errs '', '')))"

text \<open>The body of the inner loop of \<open>Tasks\<close> for one row.\<close>

definition Tasks_row :: "'d digest_lib \<Rightarrow> 'd Query_t \<Rightarrow> item \<Rightarrow> ('d Task option \<times> string list) option" where
  "Tasks_row lib q it =
     (case colID it of
        None \<Rightarrow> None
      | Some s \<Rightarrow>
          (let (id', e1) = parse_digest lib (dParse lib) ''id'' s
           in if \<not> dIsZero lib (q_ID q) \<and> dIsAbbrev lib (q_ID q) \<and> \<not> dExpands lib id' (q_ID q)
              then Some (None, e1)
              else (case colFlowID it of
                 None \<Rightarrow> None
               | Some fs \<Rightarrow>
                   (let (fid, e2) = parse_digest lib (dDigesterParse lib) ''flowid'' fs
                    in (case colRunID it of
                       None \<Rightarrow> None
                     | Some rs \<Rightarrow>
                         (let (runid, e3) = parse_digest lib (dParse lib) ''runid'' rs;
                              (result, e4) = parse_present lib ''resultid'' (colResultID it)
                          in (case colKeepalive it of
                             None \<Rightarrow> None
                           | Some kas \<Rightarrow>
                               (let (ka, e5) = parse_time lib ''keepalive'' kas
                                in (case colStartTime it of
                                   None \<Rightarrow> None
                                 | Some sts \<Rightarrow>
                                     (let (st, e6) = parse_time lib ''starttime'' sts;
                                          (stdout, e7) = parse_present lib ''stdout'' (colStdout it);
                                          (stderr, e8) = parse_present lib ''stderr'' (colStderr it);
                                          (inspect, e9) = parse_present lib ''inspect'' (colInspect it)
                                      in (case colURI it of
                                         None \<Rightarrow> None
                                       | Some uri \<Rightarrow>
                                           Some (Some \<lparr> Task_ID = id', Task_RunID = runid,
                                                   Task_FlowID = fid, Task_ResultID = result,
                                                   Task_URI = uri, Task_Keepalive = ka,
                                                   Task_Start = st, Task_Stdout = stdout,
                                                   Task_Stderr = stderr, Task_Inspect = inspect \<rparr>,
                                                 e1 @ e2 @ e3 @ e4 @ e5 @ e6 @ e7 @ e8 @ e9))))))))))))"

fun Tasks_rows ::
  "'d digest_lib \<Rightarrow> 'd Query_t \<Rightarrow> item list \<Rightarrow> 'd Task list \<times> string list \<Rightarrow>
   ('d Task list \<times> string list) option" where
  "Tasks_rows lib q [] acc = Some acc"
| "Tasks_rows lib q (it # rest) (tasks, errs) =
     (case Tasks_row lib q it of
        None \<Rightarrow> None
      | Some (None, e) \<Rightarrow> Tasks_rows lib q rest (tasks, errs @ e)
      | Some (Some x, e) \<Rightarrow> Tasks_rows lib q rest (tasks @ [x], errs @ e))"

definition Tasks :: "'d digest_lib \<Rightarrow> TaskDB \<Rightarrow> int \<Rightarrow> 'd Query_t \<Rightarrow> 'd Task list call" where
  "Tasks lib t now q =
     (case Tasks_responses lib t now q of
        Failed m \<Rightarrow> Failed m
      | Panics m \<Rightarrow> Panics m
      | Ok responses \<Rightarrow>
          (case Tasks_rows lib q (concat responses) ([], []) of
             None \<Rightarrow> Panics ''nil pointer dereference''
           | Some (tasks, errs) \<Rightarrow> if errs = [] then Ok tasks else Failed (Join errs '', '')))"

section \<open>Selector: calls over time, invariants of the loops, scenarios\<close>

text \<open>
  A run of later \<open>Unavailable\<close> calls, each with the time at which it reads the clock.
\<close>

fun Unavailable_calls :: "instanceState \<Rightarrow> (int \<times> instanceConfig) list \<Rightarrow> instanceState" where
  "Unavailable_calls s [] = s"
| "Unavailable_calls s (call # rest) = Unavailable_calls (Unavailable s (fst call) (snd call)) rest"

text \<open>
  What the first loop of \<open>MinAvailable\<close> maintains: \<open>bestPrice\<close> is a lower bound of
  the prices collected so far, and \<open>best\<close> is either still the zero config (with the
  initial \<open>bestPrice\<close>) or a collected config of that price.
\<close>

definition scan_inv :: "string \<Rightarrow> instanceConfig list \<Rightarrow> instanceConfig \<Rightarrow> real \<Rightarrow> bool" where
  "scan_inv r viable best bestPrice =
     (list_all (\<lambda>c. bestPrice \<le> price_in c r) viable \<and> bestPrice \<le> MaxFloat64 \<and>
      ((best = zero_config \<and> bestPrice = MaxFloat64) \<or>
       (best \<in> set viable \<and> price_in best r = bestPrice)))"

text \<open>
  The test of the first \<open>if\<close> of the second loop, against the result \<open>(b0, bp0)\<close> of the
  first loop: the price is strictly below one of the two premium bounds and the
  throughput strictly above the benefit bound, the three bounds being the \<open>float64\<close>
  sum and products that the code computes.
\<close>

definition upgrade_ok :: "string \<Rightarrow> instanceConfig \<Rightarrow> real \<Rightarrow> instanceConfig \<Rightarrow> bool" where
  "upgrade_ok r b0 bp0 c =
     ((f64_less (price_in c r) (f64_add bp0 (f64_const ebsThroughputPremiumCost)) \<or>
       f64_less (price_in c r) (f64_mul bp0 (f64_const (1.0 + ebsThroughputPremiumPct / 100)))) \<and>
      f64_greater (EBSThroughput c)
        (f64_mul (EBSThroughput b0) (f64_const (1.0 + ebsThroughputBenefitPct / 100))))"




text \<open>
  What the second loop maintains after the configs \<open>seen\<close>: before the upgrade nothing
  seen passes the test; after it, \<open>best\<close> is a seen config that passes the test, and no
  seen config is strictly cheaper with at least the same throughput.
\<close>

definition adjust_inv ::
  "string \<Rightarrow> instanceConfig \<Rightarrow> real \<Rightarrow> instanceConfig list \<Rightarrow> instanceConfig \<times> real \<times> bool \<Rightarrow> bool" where
  "adjust_inv r b0 bp0 seen acc =
     (case acc of (best, bestPrice, found) \<Rightarrow>
        if found
        then best \<in> set seen \<and> bestPrice = price_in best r \<and> upgrade_ok r b0 bp0 best \<and>
             list_all (\<lambda>c. \<not> (price_in c r < bestPrice \<and> EBSThroughput best \<le> EBSThroughput c)) seen
        else best = b0 \<and> bestPrice = bp0 \<and> list_all (\<lambda>c. \<not> upgrade_ok r b0 bp0 c) seen)"

text \<open>
  The catalog of the specification's first scenario: A and B with 4 cpu and 16 GiB, A at
  $0.20 with 100 MB/s, B at $0.22 with 200 MB/s; the need is 2 cpu and 8 GiB (memory
  counted in GiB here). A price written in decimal is the \<open>float64\<close> nearest to it, as
  for a literal of the source. The sleep time is five minutes.
\<close>

definition scenario_A :: instanceConfig where
  "scenario_A = \<lparr> Type = ''A'', EBSOptimized = True, EBSThroughput = 100,
     Resources = [''cpu'' \<mapsto> 4, ''mem'' \<mapsto> 16], Price = [''us-west-2'' \<mapsto> f64_const 0.20],
     SpotOk = True, NVMe = False \<rparr>"

definition scenario_B :: instanceConfig where
  "scenario_B = \<lparr> Type = ''B'', EBSOptimized = True, EBSThroughput = 200,
     Resources = [''cpu'' \<mapsto> 4, ''mem'' \<mapsto> 16], Price = [''us-west-2'' \<mapsto> f64_const 0.22],
     SpotOk = True, NVMe = False \<rparr>"

definition scenario_state :: instanceState where
  "scenario_state = \<lparr> configs = [scenario_A, scenario_B], sleepTime = 300000000000,
     region = ''us-west-2'', unavailable = Map.empty \<rparr>"

definition scenario_need :: Resources where
  "scenario_need = [''cpu'' \<mapsto> 2, ''mem'' \<mapsto> 8]"




text \<open>
  A catalog where the rounding of the sum decides: A at $0.0181, B at $0.0481. The
  \<open>float64\<close> sum of the price of A and the premium is above the exact sum, and above
  the price of B.
\<close>

definition rounding_A :: instanceConfig where
  "rounding_A = \<lparr> Type = ''A'', EBSOptimized = True, EBSThroughput = 100,
     Resources = [''cpu'' \<mapsto> 4, ''mem'' \<mapsto> 16], Price = [''us-west-2'' \<mapsto> f64_const 0.0181],
     SpotOk = True, NVMe = False \<rparr>"

definition rounding_B :: instanceConfig where
  "rounding_B = \<lparr> Type = ''B'', EBSOptimized = True, EBSThroughput = 200,
     Resources = [''cpu'' \<mapsto> 4, ''mem'' \<mapsto> 16], Price = [''us-west-2'' \<mapsto> f64_const 0.0481],
     SpotOk = True, NVMe = False \<rparr>"

definition rounding_state :: instanceState where
  "rounding_state = \<lparr> configs = [rounding_A, rounding_B], sleepTime = 300000000000,
     region = ''us-west-2'', unavailable = Map.empty \<rparr>"

text \<open>A catalog whose only type is not spot-eligible.\<close>

definition t2_micro :: instanceConfig where
  "t2_micro = \<lparr> Type = ''t2.micro'', EBSOptimized = False, EBSThroughput = 0,
     Resources = [''cpu'' \<mapsto> 1, ''mem'' \<mapsto> 1], Price = [''us-west-2'' \<mapsto> 0.0116],
     SpotOk = False, NVMe = False \<rparr>"

definition t2_state :: instanceState where
  "t2_state = \<lparr> configs = [t2_micro], sleepTime = 300000000000,
     region = ''us-west-2'', unavailable = Map.empty \<rparr>"

text \<open>A ranking function for the concrete runs of \<open>MaxAvailable\<close>: the cpu surplus.\<close>

definition cpu_surplus :: "Resources \<Rightarrow> Resources \<Rightarrow> real" where
  "cpu_surplus r need = res_get r ''cpu'' - res_get need ''cpu''"

section \<open>Launch: the success condition, the loop invariant, example runs\<close>

text \<open>
  What a successful launch promises: the instance that \<open>Instance()\<close> returns has a
  version, and its digest parses to the digest of the local image.
\<close>

definition launched_ok :: "env \<Rightarrow> instance_t \<Rightarrow> bool" where
  "launched_ok e i =
     (case Instance_of i of
        None \<Rightarrow> False
      | Some ri \<Rightarrow> Version ri \<noteq> [] \<and>
          (case imageDigest e of
             Inl er \<Rightarrow> False
           | Inr localDigest \<Rightarrow> digest_Parse e (Digest ri) = Inr localDigest))"

text \<open>
  The invariant of the loop of \<open>Go\<close>: a state at or past \<open>stateDone\<close> without an error
  has a verified instance.
\<close>

definition Go_inv :: "env \<Rightarrow> instance_t \<Rightarrow> bool" where
  "Go_inv e i = (state i < stateDone \<or> err i \<noteq> None \<or> launched_ok e i)"

text \<open>
  The image self-update scenario of the specification: the worker first reports the
  digest d1, the local digest is d2; after the update the tags show d2.
\<close>

definition old_inst :: ec2_Instance where
  "old_inst = \<lparr> PublicDnsName = Some ''ec2-1.example.com'',
     Tags = [(''Name'', ''worker''), (''reflowlet:version'', ''reflow1.0''),
             (''reflowlet:digest'', ''sha256:d1'')] \<rparr>"

definition new_inst :: ec2_Instance where
  "new_inst = \<lparr> PublicDnsName = Some ''ec2-1.example.com'',
     Tags = [(''Name'', ''worker''), (''reflowlet:version'', ''reflow1.1''),
             (''reflowlet:digest'', ''sha256:d2'')] \<rparr>"

definition parse_example :: "string \<Rightarrow> error + nat" where
  "parse_example s =
     (if s = ''sha256:d1'' then Inr 1 else if s = ''sha256:d2'' then Inr 2
      else Inl (errors_New ''invalid digest''))"

definition update_env :: env where
  "update_env = \<lparr> ctx_cancelled = None, ctx_error = errors_New ''context canceled'',
     ec2HasCapacity = (\<lambda>k. (True, None)), launch = (\<lambda>k. (''i-0abc'', None)),
     CreateTags = (\<lambda>k. None), WaitUntilInstanceRunning = (\<lambda>k. None),
     describeInstance = (\<lambda>k. Inr (if k < 9 then old_inst else new_inst)),
     client_New = (\<lambda>k. None), client_Config = (\<lambda>k. None),
     imageDigest = Inr 2, digest_Parse = parse_example,
     ReflowConfig_Instance = (\<lambda>k. None), uploadImage = (\<lambda>k. None), InstallImage = (\<lambda>k. None) \<rparr>"

text \<open>An on-demand instance before \<open>Go\<close>.\<close>

definition fresh_instance :: instance_t where
  "fresh_instance = \<lparr> Spot = False, SpotProbeDepth = 0, NEBS = 1, EBSType = ''gp2'', EBSSize = 500,
     err = None, ec2inst = None, state = 0, inst_id = [], dns = [], n = 0, d = 0, tick = 0,
     attempts = [], slept = [] \<rparr>"

text \<open>An environment in which every launch call fails with a Temporary error.\<close>

definition throttled :: error where
  "throttled = \<lparr> err_kind = KTemporary, err_code = None, err_msg = ''request throttled'' \<rparr>"

definition throttled_env :: env where
  "throttled_env = update_env \<lparr> launch := (\<lambda>k. ([], Some throttled)) \<rparr>"

section \<open>Task database: operations, row properties, example tables\<close>

text \<open>The writes of the package as one type, each run at the time \<open>now\<close>.\<close>

datatype 'd taskdb_op =
    OpCreateRun 'd string
  | OpCreateTask 'd 'd 'd string
  | OpSetTaskResult 'd 'd
  | OpSetTaskAttrs 'd 'd 'd 'd
  | OpKeepalive 'd int

fun apply_op :: "'d digest_lib \<Rightarrow> int \<Rightarrow> TaskDB \<Rightarrow> 'd taskdb_op \<Rightarrow> TaskDB" where
  "apply_op lib now t (OpCreateRun id' user) = CreateRun lib t now id' user"
| "apply_op lib now t (OpCreateTask id' runid flowid uri) = CreateTask lib t now id' runid flowid uri"
| "apply_op lib now t (OpSetTaskResult id' result) = SetTaskResult lib t id' result"
| "apply_op lib now t (OpSetTaskAttrs id' stdout stderr inspect) =
     SetTaskAttrs lib t id' stdout stderr inspect"
| "apply_op lib now t (OpKeepalive id' keepalive) = Keepalive lib t id' keepalive"

text \<open>
  The two parts of the row invariant of the specification: a Task row carries the
  \<open>HexN(4)\<close> of the digest whose string is its \<open>ID\<close>; a row has a keepalive time that
  is not before its start time.
\<close>

definition id4_ok :: "'d digest_lib \<Rightarrow> item \<Rightarrow> bool" where
  "id4_ok lib it =
     (colType it = Some ''task'' \<longrightarrow>
      (\<exists>x. colID it = Some (dString lib x) \<and> colID4 it = Some (dHexN lib x 4)))"

definition keepalive_ok :: "item \<Rightarrow> bool" where
  "keepalive_ok it =
     (case colKeepalive it of
        None \<Rightarrow> False
      | Some k \<Rightarrow> (case colStartTime it of None \<Rightarrow> False | Some s \<Rightarrow> s \<le> k))"

text \<open>The row of a primary key.\<close>

definition get_item :: "item list \<Rightarrow> string \<Rightarrow> item option" where
  "get_item tbl key = find (\<lambda>it. colID it = Some key) tbl"

text \<open>The queries that the service accepts, and the rows that match one.\<close>

definition accepted :: "QueryInput \<Rightarrow> bool" where
  "accepted qi = (KeyConditionExpression qi \<in> set key_conditions \<and>
                  FilterExpression qi \<in> set filter_expressions)"

definition matching :: "item list \<Rightarrow> QueryInput \<Rightarrow> item list" where
  "matching tbl qi = filter (\<lambda>it. key_holds qi it \<and> filter_holds qi it) tbl"

text \<open>
  A run row that the loop of \<open>Runs\<close> converts without an error or a panic when its
  keepalive is the second \<open>k\<close>: the ID parses, the labels are there and each splits at
  one \<open>=\<close> into two parts, the start time is there and parses, the user is there, and
  the keepalive parses.
\<close>

definition label_ok :: "string \<Rightarrow> bool" where
  "label_ok va = (length (Split va (CHR ''='')) = 2)"

definition run_row_ok :: "'d digest_lib \<Rightarrow> item \<Rightarrow> int \<Rightarrow> bool" where
  "run_row_ok lib it k =
     ((case colID it of None \<Rightarrow> False | Some s \<Rightarrow> dDigesterParse lib s \<noteq> None) \<and>
      (case colLabels it of None \<Rightarrow> False | Some ss \<Rightarrow> list_all label_ok ss) \<and>
      (case colStartTime it of None \<Rightarrow> False | Some st \<Rightarrow> tParse lib st \<noteq> None) \<and>
      colUser it \<noteq> None \<and> tParse lib k \<noteq> None)"

text \<open>The run rows of a table that have a keepalive are of that kind.\<close>

definition run_rows_ok :: "'d digest_lib \<Rightarrow> item list \<Rightarrow> bool" where
  "run_rows_ok lib tbl =
     list_all (\<lambda>it. colType it = Some ''run'' \<longrightarrow>
                 (case colKeepalive it of None \<Rightarrow> True | Some k \<Rightarrow> run_row_ok lib it k)) tbl"

text \<open>
  The libraries for the concrete runs: a digest is its hex digits, \<open>HexN\<close> takes the
  first digits, the zero digest has none; the parse of a time succeeds.
\<close>

definition hex_lib :: "string digest_lib" where
  "hex_lib = \<lparr> dString = (\<lambda>x. ''sha256:'' @ x), dHexN = (\<lambda>x k. take k x),
     dIsZero = (\<lambda>x. x = []), dIsAbbrev = (\<lambda>x. length x < 64),
     dExpands = (\<lambda>x a. take (length a) x = a),
     dParse = (\<lambda>s. if take 7 s = ''sha256:'' then Some (drop 7 s) else None),
     dDigesterParse = (\<lambda>s. if take 7 s = ''sha256:'' then Some (drop 7 s) else None),
     dZero = [], tParse = (\<lambda>secs. Some (secs * Second)) \<rparr>"

definition empty_db :: TaskDB where
  "empty_db = \<lparr> DB = [], TableName = ''reflow'', Labels = [''owner=alice''], User = ''alice'' \<rparr>"

text \<open>A run created at second 100, before and after a keepalive at second 200.\<close>

definition run_created :: TaskDB where
  "run_created = CreateRun hex_lib empty_db (100 * Second) ''ab12cd34'' ''alice''"

definition run_row :: item where
  "run_row = empty_item\<lparr> colID := Some ''sha256:ab12cd34'', colID4 := Some ''ab12'',
     colLabels := Some [''owner=alice''], colUser := Some ''alice'', colType := Some ''run'',
     colStartTime := Some 100 \<rparr>"

definition run_db :: TaskDB where
  "run_db = Keepalive hex_lib run_created ''ab12cd34'' (200 * Second)"

text \<open>
  The same with an older run in the table: created at second 50 by another user and
  kept alive at second 60.
\<close>

definition runs_created :: TaskDB where
  "runs_created = CreateRun hex_lib
     (Keepalive hex_lib (CreateRun hex_lib empty_db (50 * Second) ''00112233'' ''bob'')
        ''00112233'' (60 * Second))
     (100 * Second) ''ab12cd34'' ''alice''"

definition runs_db :: TaskDB where
  "runs_db = Keepalive hex_lib runs_created ''ab12cd34'' (200 * Second)"

text \<open>A time-bucket query: no ID, no run ID, no user.\<close>

definition since_query :: "int \<Rightarrow> string Query_t" where
  "since_query since = \<lparr> q_ID = [], q_RunID = [], q_Since = since, q_User = [] \<rparr>"

text \<open>
  A task created at second 100, before and after a keepalive at second 50 and at
  second 150.
\<close>

definition task_created :: TaskDB where
  "task_created = CreateTask hex_lib empty_db (100 * Second) ''77aa88bb'' ''ab12cd34'' ''f00d'' ''uri''"

definition task_row :: item where
  "task_row = empty_item\<lparr> colID := Some ''sha256:77aa88bb'', colID4 := Some ''77aa'',
     colRunID := Some ''sha256:ab12cd34'', colRunID4 := Some ''ab12'',
     colFlowID := Some ''sha256:f00d'', colType := Some ''task'', colStartTime := Some 100,
     colURI := Some ''uri'', colLabels := Some [''owner=alice''] \<rparr>"

definition task_early :: TaskDB where
  "task_early = Keepalive hex_lib task_created ''77aa88bb'' (50 * Second)"

text \<open>
  A task kept alive on day 0 and queried on day 1: the row is in the first of the two
  buckets.
\<close>

definition task_db :: TaskDB where
  "task_db = Keepalive hex_lib task_created ''77aa88bb'' (150 * Second)"

text \<open>
  A run whose label has two \<open>=\<close>: \<open>Init\<close> writes the label \<open>cmd\<close> with the value
  \<open>a=b\<close> as \<open>cmd=a=b\<close>. The run is created at second 100 and kept alive at second
  200.
\<close>

definition label_db :: TaskDB where
  "label_db = Keepalive hex_lib
     (CreateRun hex_lib (empty_db\<lparr> Labels := [''cmd=a=b''] \<rparr>) (100 * Second) ''ab12cd34'' ''alice'')
     ''ab12cd34'' (200 * Second)"

text \<open>A keepalive at second 200 for an ID that has no row.\<close>

definition orphan_db :: TaskDB where
  "orphan_db = Keepalive hex_lib empty_db ''ab12cd34'' (200 * Second)"


section \<open>Spot requests: the status codes of the claim, an example\<close>




section \<open>Selector: properties\<close>

lemmas selector_eval =
  skipped_def Since_def maxDuration_def Available_def res_get_def price_in_def
  MinAvailable_step_def Let_def

lemma MaxFloat64_big: "1 < MaxFloat64"
proof -
  have "(2::real) ^ 971 * 2 \<le> 2 ^ 971 * 2 ^ 53"
    by (intro mult_left_mono) simp_all
  then have "(2::real) ^ 972 \<le> 2 ^ 1024"
    by (simp add: power_add [symmetric])
  moreover have "(1::real) \<le> 2 ^ 971"
    by simp
  ultimately show ?thesis
    unfolding MaxFloat64_def by simp
qed

lemma MaxFloat64_pos: "0 < MaxFloat64"
  using MaxFloat64_big by simp

subsection \<open>The float64 rounding, evaluated\<close>

text \<open>
  Between \<open>2 ^ e\<close> and \<open>2 ^ (e + 1)\<close>, in the normal range, the unit in the last place
  is \<open>2 ^ (e - 52)\<close>.
\<close>

lemma ulp_exponent_eval:
  assumes "2 powi e \<le> \<bar>x\<bar>" and "\<bar>x\<bar> < 2 powi (e + 1)" and "- 1022 \<le> e"
  shows "ulp_exponent x = e - 52"
proof -
  have pos: "0 < \<bar>x\<bar>"
    using assms(1) by (smt (verit) zero_less_power_int)
  have "(2::real) powr real_of_int e = 2 powi e"
    and "(2::real) powr (real_of_int e + 1) = 2 powi (e + 1)"
    using powr_real_of_int' [of "2::real" e] powr_real_of_int' [of "2::real" "e + 1"]
    by (simp_all add: add.commute)
  then have "\<lfloor>log 2 \<bar>x\<bar>\<rfloor> = e"
    using floor_log_eq_powr_iff [of "\<bar>x\<bar>" 2 e] pos assms by simp
  then show ?thesis
    using assms(3) by (simp add: ulp_exponent_def)
qed

lemma nearest64_eval:
  assumes "2 powi e \<le> \<bar>x\<bar>" and "\<bar>x\<bar> < 2 powi (e + 1)" and "- 1022 \<le> e"
  shows "nearest64 x = of_int (round_even (x / 2 powi (e - 52))) * 2 powi (e - 52)"
proof -
  have "x \<noteq> 0"
    using assms(1) by (smt (verit) zero_less_power_int)
  then show ?thesis
    by (simp add: nearest64_def ulp_exponent_eval [OF assms])
qed

text \<open>The three constants of the second loop, converted.\<close>

lemma premium_cost_value: "f64_const ebsThroughputPremiumCost = 8646911284551352 / 2 ^ 58"
  unfolding f64_const_def ebsThroughputPremiumCost_def
  by (subst nearest64_eval [of "- 6"]) (simp_all add: round_even_def power_int_minus Let_def)

lemma premium_pct_value:
  "f64_const (1.0 + ebsThroughputPremiumPct / 100) = 5179139571476070 / 2 ^ 52"
  unfolding f64_const_def ebsThroughputPremiumPct_def
  by (subst nearest64_eval [of 0]) (simp_all add: round_even_def power_int_minus Let_def)

lemma benefit_pct_value: "f64_const (1.0 + ebsThroughputBenefitPct / 100) = 3 / 2"
  unfolding f64_const_def ebsThroughputBenefitPct_def
  by (subst nearest64_eval [of 0]) (simp_all add: round_even_def power_int_minus Let_def)

text \<open>The prices of the catalogs.\<close>

lemma price_020: "f64_const 0.20 = 7205759403792794 / 2 ^ 55"
  unfolding f64_const_def
  by (subst nearest64_eval [of "- 3"]) (simp_all add: round_even_def power_int_minus Let_def)

lemma price_022: "f64_const 0.22 = 7926335344172073 / 2 ^ 55"
  unfolding f64_const_def
  by (subst nearest64_eval [of "- 3"]) (simp_all add: round_even_def power_int_minus Let_def)

lemma price_010: "f64_const 0.10 = 7205759403792794 / 2 ^ 56"
  unfolding f64_const_def
  by (subst nearest64_eval [of "- 4"]) (simp_all add: round_even_def power_int_minus Let_def)

lemma price_013: "f64_const 0.13 = 4683743612465316 / 2 ^ 55"
  unfolding f64_const_def
  by (subst nearest64_eval [of "- 3"]) (simp_all add: round_even_def power_int_minus Let_def)

lemma price_00181: "f64_const 0.0181 = 5216969808345983 / 2 ^ 58"
  unfolding f64_const_def
  by (subst nearest64_eval [of "- 6"]) (simp_all add: round_even_def power_int_minus Let_def)

lemma price_00481: "f64_const 0.0481 = 6931940546448667 / 2 ^ 57"
  unfolding f64_const_def
  by (subst nearest64_eval [of "- 5"]) (simp_all add: round_even_def power_int_minus Let_def)

text \<open>The bounds of the second loop in the three catalogs.\<close>

lemma benefit_bound_100: "f64_mul 100 (3 / 2) = Finite 150"
  unfolding f64_mul_def round64_def
  by (subst nearest64_eval [of 7]) (simp_all add: round_even_def power_int_minus Let_def)

lemma premium_sum_020:
  "f64_add (7205759403792794 / 2 ^ 55) (8646911284551352 / 2 ^ 58) = Finite (8286623314361713 / 2 ^ 55)"
  unfolding f64_add_def round64_def
  by (subst nearest64_eval [of "- 3"]) (simp_all add: round_even_def power_int_minus Let_def)

lemma premium_sum_010:
  "f64_add (7205759403792794 / 2 ^ 56) (8646911284551352 / 2 ^ 58) = Finite (4683743612465316 / 2 ^ 55)"
  unfolding f64_add_def round64_def
  by (subst nearest64_eval [of "- 3"]) (simp_all add: round_even_def power_int_minus Let_def)

lemma premium_product_010:
  "f64_mul (7205759403792794 / 2 ^ 56) (5179139571476070 / 2 ^ 52) = Finite (8286623314361712 / 2 ^ 56)"
  unfolding f64_mul_def round64_def
  by (subst nearest64_eval [of "- 4"]) (simp_all add: round_even_def power_int_minus Let_def)

lemma premium_sum_00181:
  "f64_add (5216969808345983 / 2 ^ 58) (8646911284551352 / 2 ^ 58) = Finite (6931940546448668 / 2 ^ 57)"
  unfolding f64_add_def round64_def
  by (subst nearest64_eval [of "- 5"]) (simp_all add: round_even_def power_int_minus Let_def)

text \<open>The same values, with the arguments as the simplifier writes them.\<close>

lemma float_values:
  "f64_const (1 + ebsThroughputPremiumPct / 100) = 5179139571476070 / 2 ^ 52"
  "f64_const (1 + ebsThroughputBenefitPct / 100) = 3 / 2"
  "f64_const (1 / 5) = 7205759403792794 / 2 ^ 55"
  "f64_const (11 / 50) = 7926335344172073 / 2 ^ 55"
  "f64_const (1 / 10) = 7205759403792794 / 2 ^ 56"
  "f64_const (13 / 100) = 4683743612465316 / 2 ^ 55"
  "f64_const (181 / 10000) = 5216969808345983 / 2 ^ 58"
  "f64_const (481 / 10000) = 6931940546448667 / 2 ^ 57"
  using premium_pct_value benefit_pct_value price_020 price_022 price_010 price_013
    price_00181 price_00481
  by simp_all

lemmas float_eval =
  f64_less_def f64_greater_def premium_cost_value float_values
  benefit_bound_100 [simplified] premium_sum_020 [simplified] premium_sum_010 [simplified]
  premium_product_010 [simplified] premium_sum_00181 [simplified]

text \<open>The two comparisons are monotone in the value compared.\<close>

lemma f64_less_mono: "f64_less x t \<Longrightarrow> y \<le> x \<Longrightarrow> f64_less y t"
  by (cases t) (simp_all add: f64_less_def)

lemma f64_greater_mono: "f64_greater x t \<Longrightarrow> x \<le> y \<Longrightarrow> f64_greater y t"
  by (cases t) (simp_all add: f64_greater_def)

lemma f64_greater_not_less: "f64_greater x t \<Longrightarrow> \<not> f64_less x t"
  by (cases t) (simp_all add: f64_greater_def f64_less_def)

subsection \<open>The loop of MaxAvailable\<close>

lemma MaxAvailable_loop_result:
  "P best \<Longrightarrow> (\<And>c. c \<in> set cs \<Longrightarrow> \<not> skipped s now spot c \<Longrightarrow> P c) \<Longrightarrow>
   P (fst (MaxAvailable_loop sd s now need spot cs (best, distance)))"
  by (induction cs arbitrary: best distance) auto

lemma MaxAvailable_pick:
  "fst (MaxAvailable sd s now need spot) = zero_config \<or>
   (fst (MaxAvailable sd s now need spot) \<in> set (configs s) \<and>
    \<not> skipped s now spot (fst (MaxAvailable sd s now need spot)))"
proof -
  let ?b = "fst (MaxAvailable_loop sd s now need spot (configs s) (zero_config, - MaxFloat64))"
  have "?b = zero_config \<or> (?b \<in> set (configs s) \<and> \<not> skipped s now spot ?b)"
    by (rule MaxAvailable_loop_result) simp_all
  then show ?thesis
    by (simp add: MaxAvailable_def Let_def)
qed

text \<open>
  The part of C2 that the code keeps: a result with \<open>ok\<close> satisfies the need, and when
  the need has a positive component a spot query returns a spot-eligible config.
\<close>

lemma MaxAvailable_resources:
  "MaxAvailable sd s now need spot = (c, True) \<Longrightarrow> Available (Resources c) need"
  by (auto simp: MaxAvailable_def Let_def)

lemma MaxAvailable_spot:
  assumes ret: "MaxAvailable sd s now need spot = (c, True)"
    and pos: "0 < res_get need key"
    and spot: spot
  shows "SpotOk c"
proof -
  have c: "c = fst (MaxAvailable sd s now need spot)"
    using ret by simp
  have av: "Available (Resources c) need"
    using ret by (rule MaxAvailable_resources)
  have "c \<noteq> zero_config"
  proof
    assume "c = zero_config"
    with av have "Available Map.empty need"
      by (simp add: zero_config_def)
    moreover from pos have "key \<in> dom need"
      by (auto simp: res_get_def split: option.splits)
    ultimately have "\<not> res_get Map.empty key < res_get need key"
      unfolding Available_def by blast
    with pos show False
      by (simp add: res_get_def)
  qed
  with MaxAvailable_pick [of sd s now need spot] c spot show ?thesis
    by (auto simp: skipped_def)
qed

text \<open>
  C2 (the code departs from the claim). When no config passes the loop, \<open>best\<close> is
  still the zero config, whose nil resources satisfy a need without a positive
  component: a spot query on a catalog whose only type is not spot-eligible, with the
  empty need, returns \<open>ok = true\<close> with a config whose \<open>SpotOk\<close> is false.
\<close>

theorem MaxAvailable_empty_need:
  "MaxAvailable sd t2_state 0 Map.empty True = (zero_config, True) \<and> SpotOk zero_config = False"
  by (simp add: MaxAvailable_def t2_state_def t2_micro_def skipped_def Available_def zero_config_def)

subsection \<open>The loops of MinAvailable\<close>

lemma MinAvailable_scan_viable:
  "fst (MinAvailable_scan s now need spot cs (viable, best, bestPrice)) =
     viable @ filter (viable_config s now need spot) cs"
  by (induction cs arbitrary: viable best bestPrice) (auto simp: viable_config_def)

lemma MinAvailable_scan_inv:
  "scan_inv (region s) viable best bestPrice \<Longrightarrow>
   MinAvailable_scan s now need spot cs (viable, best, bestPrice) = (viable', best', bestPrice') \<Longrightarrow>
   scan_inv (region s) viable' best' bestPrice'"
proof (induction cs arbitrary: viable best bestPrice)
  case Nil
  then show ?case by simp
next
  case (Cons c cs)
  show ?case
  proof (cases "skipped s now spot c \<or> \<not> Available (Resources c) need \<or> Price c (region s) = None")
    case True
    then have "MinAvailable_scan s now need spot (c # cs) (viable, best, bestPrice) =
        MinAvailable_scan s now need spot cs (viable, best, bestPrice)"
      by auto
    with Cons show ?thesis by simp
  next
    case False
    then obtain p where p: "Price c (region s) = Some p" by auto
    have pin: "price_in c (region s) = p"
      by (simp add: price_in_def p)
    show ?thesis
    proof (cases "p < bestPrice")
      case True
      have step: "MinAvailable_scan s now need spot (c # cs) (viable, best, bestPrice) =
          MinAvailable_scan s now need spot cs (viable @ [c], c, p)"
        using False p True by auto
      have "scan_inv (region s) (viable @ [c]) c p"
        using Cons.prems(1) True pin by (auto simp: scan_inv_def list_all_iff)
      then show ?thesis
        using Cons.IH Cons.prems(2) step by simp
    next
      case nlt: False
      have step: "MinAvailable_scan s now need spot (c # cs) (viable, best, bestPrice) =
          MinAvailable_scan s now need spot cs (viable @ [c], best, bestPrice)"
        using False p nlt by auto
      have "scan_inv (region s) (viable @ [c]) best bestPrice"
        using Cons.prems(1) nlt pin by (auto simp: scan_inv_def list_all_iff)
      then show ?thesis
        using Cons.IH Cons.prems(2) step by simp
    qed
  qed
qed

lemma upgrade_ok_mono:
  assumes "upgrade_ok r b0 bp0 x" and "price_in c r \<le> price_in x r"
    and "EBSThroughput x \<le> EBSThroughput c"
  shows "upgrade_ok r b0 bp0 c"
  using assms f64_less_mono [of "price_in x r" _ "price_in c r"]
    f64_greater_mono [of "EBSThroughput x" _ "EBSThroughput c"]
  unfolding upgrade_ok_def by blast

lemma MinAvailable_step_inv:
  assumes "adjust_inv r b0 bp0 seen acc"
  shows "adjust_inv r b0 bp0 (seen @ [c]) (MinAvailable_step r c acc)"
proof -
  obtain best bestPrice found where acc: "acc = (best, bestPrice, found)"
    by (cases acc) auto
  show ?thesis
  proof (cases found)
    case True
    with assms acc have inv: "best \<in> set seen" "bestPrice = price_in best r"
      "upgrade_ok r b0 bp0 best"
      "\<forall>x\<in>set seen. \<not> (price_in x r < bestPrice \<and> EBSThroughput best \<le> EBSThroughput x)"
      by (auto simp: adjust_inv_def list_all_iff)
    show ?thesis
    proof (cases "price_in c r < bestPrice \<and> EBSThroughput best \<le> EBSThroughput c")
      case swap: True
      then have st: "MinAvailable_step r c acc = (c, price_in c r, True)"
        using acc True by (simp add: MinAvailable_step_def Let_def)
      have "upgrade_ok r b0 bp0 c"
        using upgrade_ok_mono [OF inv(3), of c] swap inv(2) by simp
      moreover have "\<forall>x\<in>set seen. \<not> (price_in x r < price_in c r \<and> EBSThroughput c \<le> EBSThroughput x)"
        using inv(4) swap by force
      ultimately show ?thesis
        using st by (simp add: adjust_inv_def list_all_iff)
    next
      case keep: False
      then have st: "MinAvailable_step r c acc = (best, bestPrice, True)"
        using acc True by (auto simp: MinAvailable_step_def Let_def)
      show ?thesis
        using st inv keep by (auto simp: adjust_inv_def list_all_iff)
    qed
  next
    case False
    with assms acc have b: "best = b0" "bestPrice = bp0"
      and old: "\<forall>x\<in>set seen. \<not> upgrade_ok r b0 bp0 x"
      by (auto simp: adjust_inv_def list_all_iff)
    show ?thesis
    proof (cases "upgrade_ok r b0 bp0 c")
      case True
      then have st: "MinAvailable_step r c acc = (c, price_in c r, True)"
        using acc False b by (auto simp: MinAvailable_step_def Let_def upgrade_ok_def)
      have "\<not> (price_in x r < price_in c r \<and> EBSThroughput c \<le> EBSThroughput x)"
        if "x \<in> set seen" for x
      proof
        assume "price_in x r < price_in c r \<and> EBSThroughput c \<le> EBSThroughput x"
        with True have "upgrade_ok r b0 bp0 x"
          using upgrade_ok_mono [of r b0 bp0 c x] by simp
        with old that show False by blast
      qed
      then show ?thesis
        using st True by (auto simp: adjust_inv_def list_all_iff)
    next
      case nup: False
      then have st: "MinAvailable_step r c acc = (b0, bp0, False)"
        using acc False b by (auto simp: MinAvailable_step_def Let_def upgrade_ok_def)
      show ?thesis
        using st nup old by (auto simp: adjust_inv_def list_all_iff)
    qed
  qed
qed

lemma MinAvailable_adjust_inv:
  "adjust_inv r b0 bp0 seen acc \<Longrightarrow>
   adjust_inv r b0 bp0 (seen @ viable) (MinAvailable_adjust r viable acc)"
proof (induction viable arbitrary: seen acc)
  case Nil
  then show ?case by simp
next
  case (Cons c viable)
  from MinAvailable_step_inv [OF Cons.prems, of c]
  have "adjust_inv r b0 bp0 ((seen @ [c]) @ viable)
          (MinAvailable_adjust r viable (MinAvailable_step r c acc))"
    by (rule Cons.IH)
  then show ?case by simp
qed

lemma MinAvailable_result:
  assumes "MinAvailable_scan s now need spot (configs s) ([], zero_config, MaxFloat64) = (V, b0, bp0)"
  shows "V = filter (viable_config s now need spot) (configs s)"
    and "scan_inv (region s) V b0 bp0"
    and "adjust_inv (region s) b0 bp0 V (MinAvailable_adjust (region s) V (b0, bp0, False))"
    and "MinAvailable s now need spot =
          (fst (MinAvailable_adjust (region s) V (b0, bp0, False)),
           Available (Resources (fst (MinAvailable_adjust (region s) V (b0, bp0, False)))) need)"
proof -
  show "V = filter (viable_config s now need spot) (configs s)"
    using MinAvailable_scan_viable [of s now need spot "configs s" "[]" zero_config MaxFloat64] assms
    by simp
  have "scan_inv (region s) [] zero_config MaxFloat64"
    by (simp add: scan_inv_def)
  then show "scan_inv (region s) V b0 bp0"
    using assms by (rule MinAvailable_scan_inv)
  have "adjust_inv (region s) b0 bp0 [] (b0, bp0, False)"
    by (simp add: adjust_inv_def)
  from MinAvailable_adjust_inv [OF this, of V]
  show "adjust_inv (region s) b0 bp0 V (MinAvailable_adjust (region s) V (b0, bp0, False))"
    by simp
  show "MinAvailable s now need spot =
          (fst (MinAvailable_adjust (region s) V (b0, bp0, False)),
           Available (Resources (fst (MinAvailable_adjust (region s) V (b0, bp0, False)))) need)"
    using assms by (simp add: MinAvailable_def Let_def)
qed

lemma MinAvailable_pick:
  "fst (MinAvailable s now need spot) = zero_config \<or>
   (fst (MinAvailable s now need spot) \<in> set (configs s) \<and>
    \<not> skipped s now spot (fst (MinAvailable s now need spot)))"
proof -
  obtain V b0 bp0 where sc:
    "MinAvailable_scan s now need spot (configs s) ([], zero_config, MaxFloat64) = (V, b0, bp0)"
    by (metis prod_cases3)
  note res = MinAvailable_result [OF sc]
  obtain r rp f where adj: "MinAvailable_adjust (region s) V (b0, bp0, False) = (r, rp, f)"
    by (metis prod_cases3)
  have fstr: "fst (MinAvailable s now need spot) = r"
    using res(4) adj by simp
  have "r = zero_config \<or> r \<in> set V"
    using res(2) res(3) adj by (cases f) (auto simp: adjust_inv_def scan_inv_def)
  then show ?thesis
    unfolding fstr using res(1) by (auto simp: viable_config_def)
qed

subsection \<open>The scenarios, run\<close>

lemma scenario_viable_A: "viable_config scenario_state 0 scenario_need False scenario_A"
  by (simp add: viable_config_def scenario_state_def scenario_A_def scenario_need_def selector_eval)


lemma scenario_MinAvailable:
  "MinAvailable scenario_state 0 scenario_need False = (scenario_B, True)"
proof -
  have sc: "MinAvailable_scan scenario_state 0 scenario_need False (configs scenario_state)
      ([], zero_config, MaxFloat64) = ([scenario_A, scenario_B], scenario_A, f64_const 0.20)"
    using MaxFloat64_big
    by (simp add: scenario_state_def scenario_A_def scenario_B_def scenario_need_def selector_eval
        float_eval)
  have adj: "MinAvailable_adjust (region scenario_state) [scenario_A, scenario_B]
      (scenario_A, f64_const 0.20, False) = (scenario_B, f64_const 0.22, True)"
    by (simp add: scenario_state_def scenario_A_def scenario_B_def selector_eval float_eval)
  have av: "Available (Resources scenario_B) scenario_need"
    by (simp add: scenario_B_def scenario_need_def selector_eval)
  show ?thesis
    unfolding MinAvailable_def sc by (simp only: adj av Let_def fst_conv prod.case)
qed

subsection \<open>C4: the result of MinAvailable is not dominated\<close>

text \<open>
  C4. When \<open>MinAvailable\<close> returns a config with \<open>ok = true\<close>, no viable config of the
  catalog (not marked unavailable within the sleep window, spot-eligible when spot is
  asked for, satisfying the need, priced in the region) has both a strictly lower price
  and a strictly higher EBS throughput than the returned config.
\<close>

theorem MinAvailable_not_dominated:
  assumes ret: "MinAvailable s now need spot = (r, True)"
    and mem: "c \<in> set (configs s)"
    and via: "viable_config s now need spot c"
  shows "\<not> (price_in c (region s) < price_in r (region s) \<and> EBSThroughput r < EBSThroughput c)"
proof -
  obtain V b0 bp0 where sc:
    "MinAvailable_scan s now need spot (configs s) ([], zero_config, MaxFloat64) = (V, b0, bp0)"
    by (metis prod_cases3)
  note res = MinAvailable_result [OF sc]
  obtain rp f where adj: "MinAvailable_adjust (region s) V (b0, bp0, False) = (r, rp, f)"
    using res(4) ret by (metis fst_conv prod.collapse)
  have cV: "c \<in> set V"
    using res(1) mem via by simp
  show ?thesis
  proof (cases f)
    case True
    with res(3) adj cV show ?thesis
      by (auto simp: adjust_inv_def list_all_iff)
  next
    case False
    with res(3) adj have r: "r = b0"
      by (simp add: adjust_inv_def)
    from res(2) cV have le: "bp0 \<le> price_in c (region s)"
      by (auto simp: scan_inv_def list_all_iff)
    from res(2) consider "b0 = zero_config" "bp0 = MaxFloat64" | "price_in b0 (region s) = bp0"
      by (auto simp: scan_inv_def)
    then show ?thesis
    proof cases
      case 1
      then have "price_in r (region s) = 0"
        using r by (simp add: price_in_def zero_config_def)
      with le 1 MaxFloat64_pos show ?thesis by simp
    next
      case 2
      with le r show ?thesis by simp
    qed
  qed
qed

theorem MinAvailable_not_dominated_witness:
  "MinAvailable scenario_state 0 scenario_need False = (scenario_B, True) \<and>
   scenario_A \<in> set (configs scenario_state) \<and>
   viable_config scenario_state 0 scenario_need False scenario_A \<and>
   \<not> (price_in scenario_A (region scenario_state) < price_in scenario_B (region scenario_state) \<and>
      EBSThroughput scenario_B < EBSThroughput scenario_A)"
proof -
  have m: "scenario_A \<in> set (configs scenario_state)"
    by (simp add: scenario_state_def)
  from MinAvailable_not_dominated [OF scenario_MinAvailable m scenario_viable_A]
  show ?thesis
    using scenario_MinAvailable m scenario_viable_A by blast
qed

subsection \<open>C3: the premium for EBS throughput\<close>

text \<open>
  The rounding of the code is part of the test. With A at $0.0181 and B at $0.0481 the
  decimal prices differ by $0.03, the \<open>float64\<close> prices by a little less, and the
  \<open>float64\<close> sum of the price of A and the premium is above the price of B:
  \<open>MinAvailable\<close> returns B.
\<close>

lemma MinAvailable_rounding:
  "MinAvailable rounding_state 0 scenario_need False = (rounding_B, True)"
proof -
  have sc: "MinAvailable_scan rounding_state 0 scenario_need False (configs rounding_state)
      ([], zero_config, MaxFloat64) = ([rounding_A, rounding_B], rounding_A, f64_const 0.0181)"
    using MaxFloat64_big
    by (simp add: rounding_state_def rounding_A_def rounding_B_def scenario_need_def selector_eval
        float_eval)
  have adj: "MinAvailable_adjust (region rounding_state) [rounding_A, rounding_B]
      (rounding_A, f64_const 0.0181, False) = (rounding_B, f64_const 0.0481, True)"
    by (simp add: rounding_state_def rounding_A_def rounding_B_def selector_eval float_eval)
  have av: "Available (Resources rounding_B) scenario_need"
    by (simp add: rounding_B_def scenario_need_def selector_eval)
  show ?thesis
    unfolding MinAvailable_def sc by (simp only: adj av Let_def fst_conv prod.case)
qed




subsection \<open>C5: the window after Unavailable\<close>

lemma Unavailable_calls_fields:
  "configs (Unavailable_calls s calls) = configs s \<and>
   sleepTime (Unavailable_calls s calls) = sleepTime s \<and>
   region (Unavailable_calls s calls) = region s"
  by (induction calls arbitrary: s) (simp_all add: Unavailable_def)

lemma Unavailable_calls_marked:
  assumes "unavailable s typ = Some T0" and "T \<le> T0" and "T0 \<le> t"
    and "list_all (\<lambda>call. T \<le> fst call \<and> fst call \<le> t) calls"
  shows "\<exists>T1. unavailable (Unavailable_calls s calls) typ = Some T1 \<and> T \<le> T1 \<and> T1 \<le> t"
  using assms
proof (induction calls arbitrary: s T0)
  case Nil
  then show ?case by simp
next
  case (Cons call calls)
  obtain T0' where "unavailable (Unavailable s (fst call) (snd call)) typ = Some T0'"
    and "T \<le> T0'" and "T0' \<le> t"
    using Cons.prems by (cases "Type (snd call) = typ") (auto simp: Unavailable_def)
  moreover have "list_all (\<lambda>call. T \<le> fst call \<and> fst call \<le> t) calls"
    using Cons.prems(4) by simp
  ultimately show ?case
    using Cons.IH by simp
qed

lemma marked_skipped:
  assumes "unavailable s (Type c) = Some T1" and "T \<le> T1" and "t < T + sleepTime s"
  shows "skipped s t spot c"
  using assms by (simp add: skipped_def Since_def)

text \<open>
  For every config but the zero config the window holds. \<open>Unavailable(c)\<close> is called
  at time \<open>T\<close>, followed by any calls of \<open>Unavailable\<close> at times between \<open>T\<close> and \<open>t\<close>.
  A query at a time \<open>t\<close> with \<open>T \<le> t < T + sleepTime\<close> excludes \<open>c\<close>: \<open>Type\<close> returns
  \<open>ok = false\<close> for the name of \<open>c\<close>, and neither \<open>MaxAvailable\<close> nor \<open>MinAvailable\<close>
  returns \<open>c\<close>, whatever the need, the market and the ranking function.
\<close>

lemma Unavailable_window:
  assumes nz: "c \<noteq> zero_config"
    and calls: "list_all (\<lambda>call. T \<le> fst call \<and> fst call \<le> t) calls"
    and win: "T \<le> t" "t < T + sleepTime s"
    and s': "s' = Unavailable_calls (Unavailable s T c) calls"
  shows "\<not> snd (Type_of s' t (Type c)) \<and>
         fst (MaxAvailable sd s' t need spot) \<noteq> c \<and>
         fst (MinAvailable s' t need spot) \<noteq> c"
proof -
  have "unavailable (Unavailable s T c) (Type c) = Some T"
    by (simp add: Unavailable_def)
  from Unavailable_calls_marked [OF this _ win(1) calls]
  obtain T1 where T1: "unavailable s' (Type c) = Some T1" "T \<le> T1"
    unfolding s' by auto
  have sl: "sleepTime s' = sleepTime s"
    unfolding s' by (simp add: Unavailable_calls_fields Unavailable_def)
  have sk: "skipped s' t sp c" for sp
    using marked_skipped [OF T1] win(2) sl by simp
  have "\<not> snd (Type_of s' t (Type c))"
    using T1 win(2) sl by (simp add: Type_of_def Since_def)
  moreover have "fst (MaxAvailable sd s' t need spot) \<noteq> c"
    using MaxAvailable_pick [of sd s' t need spot] nz sk by auto
  moreover have "fst (MinAvailable s' t need spot) \<noteq> c"
    using MinAvailable_pick [of s' t need spot] nz sk by auto
  ultimately show ?thesis by simp
qed

text \<open>
  The second scenario of the specification: B is marked at time 0, A at time 10; at
  time 20, within the window, no query returns B.
\<close>

lemma Unavailable_window_scenario:
  "\<not> snd (Type_of (Unavailable_calls (Unavailable scenario_state 0 scenario_B) [(10, scenario_A)])
            20 (Type scenario_B)) \<and>
   fst (MaxAvailable cpu_surplus (Unavailable_calls (Unavailable scenario_state 0 scenario_B) [(10, scenario_A)])
         20 scenario_need False) \<noteq> scenario_B \<and>
   fst (MinAvailable (Unavailable_calls (Unavailable scenario_state 0 scenario_B) [(10, scenario_A)])
         20 scenario_need False) \<noteq> scenario_B"
proof -
  have nz: "scenario_B \<noteq> zero_config"
    by (simp add: scenario_B_def zero_config_def)
  have calls: "list_all (\<lambda>call. (0::int) \<le> fst call \<and> fst call \<le> 20) [(10, scenario_A)]"
    by simp
  have win: "(0::int) \<le> 20" "(20::int) < 0 + sleepTime scenario_state"
    by (simp_all add: scenario_state_def)
  from Unavailable_window [OF nz calls win refl, of cpu_surplus scenario_need False]
  show ?thesis .
qed

text \<open>
  C5 (the code departs from the claim). The claim is for every config: once
  \<open>Unavailable(c)\<close> is called at time \<open>T\<close>, no query before \<open>T + sleepTime\<close> returns
  \<open>c\<close>. When nothing passes the loop the selector returns the zero config, and with an
  empty need it does so with \<open>ok = true\<close>: right after \<open>Unavailable\<close> was called with
  the zero config at time 0, \<open>MinAvailable\<close> at time 0 returns that config.
\<close>

theorem Unavailable_zero_config:
  "(0::int) < 0 + sleepTime t2_state \<and>
   MinAvailable (Unavailable t2_state 0 zero_config) 0 Map.empty True = (zero_config, True)"
  by (simp add: MinAvailable_def Unavailable_def t2_state_def t2_micro_def skipped_def
      Available_def zero_config_def)

section \<open>Launch: properties\<close>

lemmas state_defs = stateCapacity_def stateLaunch_def stateTag_def stateWaitInstance_def
  stateDescribeDns_def stateWaitReflowlet_def stateDescribeTags_def stateUpdateImage_def
  stateDone_def

lemma launched_ok_cong:
  "ec2inst i' = ec2inst i \<Longrightarrow> launched_ok e i' = launched_ok e i"
  by (simp add: launched_ok_def Instance_of_def)

subsection \<open>The cases of the switch\<close>

lemma case_stateCapacity_Fall:
  "case_stateCapacity e i = Fall i1 \<Longrightarrow> state i1 = state i"
  by (auto simp: case_stateCapacity_def split: prod.splits if_splits)

lemma case_stateLaunch_Fall:
  "case_stateLaunch e i = Fall i1 \<Longrightarrow> state i1 = state i"
  by (auto simp: case_stateLaunch_def split: prod.splits)

lemma case_stateTag_Fall:
  "case_stateTag e i = Fall i1 \<Longrightarrow> state i1 = state i"
  by (auto simp: case_stateTag_def)

lemma case_stateWaitInstance_Fall:
  "case_stateWaitInstance e i = Fall i1 \<Longrightarrow> state i1 = state i"
  by (auto simp: case_stateWaitInstance_def)

lemma case_stateDescribeDns_Fall:
  "case_stateDescribeDns e i = Fall i1 \<Longrightarrow> state i1 = state i"
  by (auto simp: case_stateDescribeDns_def split: sum.splits option.splits if_splits)

lemma case_stateWaitReflowlet_Fall:
  "case_stateWaitReflowlet e i = Fall i1 \<Longrightarrow> state i1 = state i"
  by (auto simp: case_stateWaitReflowlet_def split: option.splits if_splits)

lemma case_stateDescribeTags_Fall:
  assumes "case_stateDescribeTags e i = Fall i1"
  shows "err i1 \<noteq> None \<or> state i1 = state i \<or> (state i1 = stateDone \<and> launched_ok e i1)"
  using assms
  by (auto simp: case_stateDescribeTags_def Let_def launched_ok_def Instance_of_def
      split: sum.splits if_splits)

lemma case_stateUpdateImage_Fall:
  "case_stateUpdateImage e i = Fall i1 \<Longrightarrow> err i1 \<noteq> None"
  by (auto simp: case_stateUpdateImage_def split: option.splits if_splits)

lemma case_stateUpdateImage_Continue:
  "case_stateUpdateImage e i = Continue i1 \<Longrightarrow> state i1 = stateWaitReflowlet"
  by (auto simp: case_stateUpdateImage_def split: option.splits if_splits)

lemma switch_state_Fall:
  assumes "switch_state e i = Fall i1" and "state i < stateDone"
  shows "err i1 \<noteq> None \<or> (state i1 = state i \<and> state i < stateUpdateImage) \<or>
         (state i1 = stateDone \<and> launched_ok e i1)"
proof -
  consider "state i = stateCapacity" | "state i = stateLaunch" | "state i = stateTag"
    | "state i = stateWaitInstance" | "state i = stateDescribeDns" | "state i = stateWaitReflowlet"
    | "state i = stateDescribeTags" | "state i = stateUpdateImage"
    using assms(2) unfolding state_defs by linarith
  then show ?thesis
  proof cases
    case 1
    with assms show ?thesis
      using case_stateCapacity_Fall [of e i i1] by (simp add: switch_state_def state_defs)
  next
    case 2
    with assms show ?thesis
      using case_stateLaunch_Fall [of e i i1] by (simp add: switch_state_def state_defs)
  next
    case 3
    with assms show ?thesis
      using case_stateTag_Fall [of e i i1] by (simp add: switch_state_def state_defs)
  next
    case 4
    with assms show ?thesis
      using case_stateWaitInstance_Fall [of e i i1] by (simp add: switch_state_def state_defs)
  next
    case 5
    with assms show ?thesis
      using case_stateDescribeDns_Fall [of e i i1] by (simp add: switch_state_def state_defs)
  next
    case 6
    with assms show ?thesis
      using case_stateWaitReflowlet_Fall [of e i i1] by (simp add: switch_state_def state_defs)
  next
    case 7
    with assms show ?thesis
      using case_stateDescribeTags_Fall [of e i i1] by (auto simp: switch_state_def state_defs)
  next
    case 8
    with assms show ?thesis
      using case_stateUpdateImage_Fall [of e i i1] by (simp add: switch_state_def state_defs)
  qed
qed

lemma switch_state_Continue:
  "switch_state e i = Continue i1 \<Longrightarrow> state i1 = stateWaitReflowlet"
  by (auto simp: switch_state_def case_stateCapacity_def case_stateLaunch_def case_stateTag_def
      case_stateWaitInstance_def case_stateDescribeDns_def case_stateWaitReflowlet_def
      case_stateDescribeTags_def Let_def
      dest: case_stateUpdateImage_Continue split: if_splits prod.splits sum.splits option.splits)

subsection \<open>The code after the switch\<close>

lemma after_switch_Next:
  assumes "after_switch i1 = Next i2"
  shows "(err i1 = None \<and> state i2 = state i1 + 1 \<and> ec2inst i2 = ec2inst i1) \<or> err i2 \<noteq> None"
  using assms by (auto simp: after_switch_def Let_def split: option.splits if_splits)

lemma after_switch_stop:
  "after_switch i1 = Break i2 \<Longrightarrow> err i2 \<noteq> None"
  "after_switch i1 = Return i2 \<Longrightarrow> err i2 \<noteq> None"
  by (auto simp: after_switch_def Let_def split: option.splits if_splits)

text \<open>
  The parts of C6 that the code keeps. A capacity code makes the error Unavailable; a
  Fatal or Unavailable error returns at once; any other error sleeps \<open>d\<close>, counts the
  retry and doubles \<open>d\<close>; a success resets \<open>n\<close> to 0 and \<open>d\<close> to five seconds.
\<close>

lemma reclassify_capacity:
  "err_code er = Some code \<Longrightarrow> code \<in> set capacity_codes \<Longrightarrow> errors_Is KUnavailable (reclassify er)"
  by (simp add: reclassify_def errors_Is_def errors_E_def)

lemma after_switch_abort:
  assumes "err i = Some er" and "n i \<noteq> maxTries"
    and "errors_Is KFatal (reclassify er) \<or> errors_Is KUnavailable (reclassify er)"
  shows "after_switch i = Return (i\<lparr> err := Some (reclassify er) \<rparr>)"
  using assms by (auto simp: after_switch_def Let_def)

lemma after_switch_backoff:
  assumes "err i = Some er" and "n i \<noteq> maxTries"
    and "\<not> errors_Is KFatal (reclassify er)" and "\<not> errors_Is KUnavailable (reclassify er)"
  shows "after_switch i =
    Next (i\<lparr> err := Some (reclassify er), slept := slept i @ [d i], n := n i + 1, d := d i * 2 \<rparr>)"
  using assms by (simp add: after_switch_def Let_def)

lemma after_switch_success:
  "err i = None \<Longrightarrow> after_switch i = Next (i\<lparr> n := 0, d := 5 * Second, state := state i + 1 \<rparr>)"
  by (simp add: after_switch_def)

lemma after_switch_exhausted:
  "err i = Some er \<Longrightarrow> n i = maxTries \<Longrightarrow> after_switch i = Break i"
  by (simp add: after_switch_def)

subsection \<open>The loop\<close>

lemma Go_body_Next:
  assumes "Go_body e i = Next i2" and "state i < stateDone"
  shows "Go_inv e i2"
proof (cases "switch_state e (i\<lparr> attempts := attempts i @ [state i] \<rparr>)")
  case (Fall i1)
  with assms(1) have a: "after_switch i1 = Next i2"
    by (simp add: Go_body_def)
  from switch_state_Fall [OF Fall] assms(2)
  have f: "err i1 \<noteq> None \<or> (state i1 = state i \<and> state i < stateUpdateImage) \<or>
         (state i1 = stateDone \<and> launched_ok e i1)"
    by simp
  from after_switch_Next [OF a] show ?thesis
  proof
    assume h: "err i1 = None \<and> state i2 = state i1 + 1 \<and> ec2inst i2 = ec2inst i1"
    with f consider "state i1 = state i" "state i < stateUpdateImage" | "launched_ok e i1"
      by auto
    then show ?thesis
    proof cases
      case 1
      with h show ?thesis
        by (simp add: Go_inv_def state_defs)
    next
      case 2
      with h launched_ok_cong [of i2 i1 e] show ?thesis
        by (simp add: Go_inv_def)
    qed
  next
    assume "err i2 \<noteq> None"
    then show ?thesis
      by (simp add: Go_inv_def)
  qed
next
  case (Continue i1)
  with assms(1) have "i2 = i1"
    by (simp add: Go_body_def)
  with switch_state_Continue [OF Continue] show ?thesis
    by (simp add: Go_inv_def state_defs)
next
  case Panic
  with assms(1) show ?thesis
    by (simp add: Go_body_def)
qed

lemma Go_body_stop:
  "Go_body e i = Break i2 \<Longrightarrow> err i2 \<noteq> None"
  "Go_body e i = Return i2 \<Longrightarrow> err i2 \<noteq> None"
  by (auto simp: Go_body_def dest: after_switch_stop split: flow.splits)

lemma Go_loop_success:
  "Go_loop e fuel i = Some (Returned fin) \<Longrightarrow> Go_inv e i \<Longrightarrow> err fin = None \<Longrightarrow> launched_ok e fin"
proof (induction fuel arbitrary: i)
  case 0
  then show ?case by simp
next
  case (Suc fuel)
  show ?case
  proof (cases "state i < stateDone \<and> ctx_Err e (tick i) = None")
    case True
    show ?thesis
    proof (cases "Go_body e i")
      case (Next i1)
      with True Suc.prems(1)
      have run: "Go_loop e fuel (i1\<lparr> tick := tick i1 + 1 \<rparr>) = Some (Returned fin)"
        by simp
      from Go_body_Next [OF Next] True have "Go_inv e i1"
        by simp
      then have "Go_inv e (i1\<lparr> tick := tick i1 + 1 \<rparr>)"
        using launched_ok_cong [of "i1\<lparr> tick := tick i1 + 1 \<rparr>" i1 e] by (simp add: Go_inv_def)
      from Suc.IH [OF run this Suc.prems(3)] show ?thesis .
    next
      case (Break i1)
      with True Suc.prems(1) have "fin = Go_finish e i1"
        by simp
      with Go_body_stop(1) [OF Break] Suc.prems(3) show ?thesis
        by (simp add: Go_finish_def)
    next
      case (Return i1)
      with True Suc.prems(1) have "fin = i1"
        by simp
      with Go_body_stop(2) [OF Return] Suc.prems(3) show ?thesis
        by simp
    next
      case Panicked
      with True Suc.prems(1) show ?thesis
        by simp
    qed
  next
    case False
    with Suc.prems(1) have fin: "fin = Go_finish e i"
      by auto
    with Suc.prems(3) have e1: "err i = None" and e2: "ctx_Err e (tick i) = None"
      by (auto simp: Go_finish_def split: if_splits)
    with False have "\<not> state i < stateDone"
      by simp
    with Suc.prems(2) e1 have "launched_ok e i"
      by (simp add: Go_inv_def)
    then show ?thesis
      using launched_ok_cong [of fin i e] fin by (simp add: Go_finish_def)
  qed
qed

subsection \<open>C1: a launch without error is verified\<close>

text \<open>
  C1. For every environment and every instance, if \<open>Go\<close> returns and \<open>Err()\<close> is nil,
  then \<open>Instance()\<close> has a non-empty \<open>Version\<close> and its \<open>Digest\<close> parses to the digest
  of the local embedded image.
\<close>

theorem Go_success:
  assumes "Go e fuel i = Some (Returned fin)" and "Err fin = None"
  shows "\<exists>ri localDigest. Instance_of fin = Some ri \<and> Version ri \<noteq> [] \<and>
           imageDigest e = Inr localDigest \<and> digest_Parse e (Digest ri) = Inr localDigest"
proof -
  have "Go_inv e (Go_init i)"
    by (simp add: Go_inv_def Go_init_def Let_def state_defs split: option.splits)
  with assms have "launched_ok e fin"
    using Go_loop_success [of e fuel "Go_init i" fin] by (simp add: Go_def Err_def)
  then show ?thesis
    by (auto simp: launched_ok_def split: option.splits sum.splits)
qed

text \<open>
  The image self-update scenario: the run passes through \<open>stateUpdateImage\<close> once and
  ends without error on the instance that carries version reflow1.1 and digest d2.
\<close>

lemma update_env_run:
  "(case Go update_env 12 fresh_instance of
      Some (Returned fin) \<Rightarrow> Err fin = None \<and> ec2inst fin = Some new_inst \<and>
        attempts fin = [0, 1, 2, 3, 4, 5, 6, 7, 5, 6]
    | _ \<Rightarrow> False)"
  by code_simp

theorem Go_success_witness:
  "\<exists>fin ri. Go update_env 12 fresh_instance = Some (Returned fin) \<and> Err fin = None \<and>
     Instance_of fin = Some ri \<and> Version ri = ''reflow1.1'' \<and>
     imageDigest update_env = Inr 2 \<and> digest_Parse update_env (Digest ri) = Inr 2"
proof -
  from update_env_run obtain fin where run: "Go update_env 12 fresh_instance = Some (Returned fin)"
    and ok: "Err fin = None" and inst: "ec2inst fin = Some new_inst"
    by (auto split: option.splits outcome.splits)
  from Go_success [OF run ok] obtain ri localDigest where ri: "Instance_of fin = Some ri"
    and v: "Version ri \<noteq> []" and l: "imageDigest update_env = Inr localDigest"
    and p: "digest_Parse update_env (Digest ri) = Inr localDigest"
    by blast
  have "localDigest = 2"
    using l by (simp add: update_env_def)
  moreover have "Version ri = ''reflow1.1''"
    using ri inst by (auto simp: Instance_of_def newReflowletInstance_def new_inst_def)
  ultimately show ?thesis
    using run ok ri l p by blast
qed

subsection \<open>C6: the number of attempts\<close>

text \<open>
  C6 (the code departs from the claim). \<open>n\<close> counts the retries and is compared with
  \<open>maxTries\<close> before it is incremented: when every launch call fails with a Temporary
  error, \<open>stateLaunch\<close> is attempted six times, with sleeps of 5, 10, 20, 40 and 80
  seconds in between, before \<open>Go\<close> returns the last error.
\<close>

theorem Go_attempts_six:
  "(case Go throttled_env 20 fresh_instance of
      Some (Returned fin) \<Rightarrow>
        attempts fin = [stateCapacity, stateLaunch, stateLaunch, stateLaunch, stateLaunch,
                        stateLaunch, stateLaunch] \<and>
        slept fin = [5 * Second, 10 * Second, 20 * Second, 40 * Second, 80 * Second] \<and>
        Err fin = Some throttled
    | _ \<Rightarrow> False)"
  by code_simp

section \<open>Task database: properties\<close>

subsection \<open>Dates\<close>

lemma Day_pos: "0 < Day"
  by (simp add: Day_def Second_def)

lemma date_eq: "date a = Day * (a div Day)"
  by (simp add: date_def minus_mod_eq_mult_div)

lemma date_mono: "a \<le> b \<Longrightarrow> date a \<le> date b"
proof -
  assume "a \<le> b"
  then have "a div Day \<le> b div Day"
    using Day_pos by (simp add: zdiv_mono1)
  then have "Day * (a div Day) \<le> Day * (b div Day)"
    using Day_pos by simp
  then show ?thesis
    by (simp add: date_eq)
qed

lemma Format_dateLayout_date: "Format_dateLayout (date a) = Format_dateLayout a"
  using Day_pos by (simp add: Format_dateLayout_def date_eq)

lemma Format_timeLayout_less: "Format_timeLayout a < Format_timeLayout b \<Longrightarrow> a < b"
proof (rule ccontr)
  assume lt: "Format_timeLayout a < Format_timeLayout b" and "\<not> a < b"
  then have "b div Second \<le> a div Second"
    by (simp add: zdiv_mono1 Second_def)
  with lt show False
    by (simp add: Format_timeLayout_def)
qed

lemma dates_future: "date now < date since \<Longrightarrow> dates since now = []"
  unfolding dates_def by (subst dates_loop.simps) simp

lemma dates_loop_mem:
  "b \<le> x \<Longrightarrow> x \<le> e \<Longrightarrow> (x - b) mod Day = 0 \<Longrightarrow> x \<in> set (dates_loop b e)"
proof (induction b e rule: dates_loop.induct)
  case (1 beg en)
  show ?case
  proof (cases "x = beg")
    case True
    with "1.prems" show ?thesis
      by (subst dates_loop.simps) simp
  next
    case False
    from "1.prems"(3) obtain k where k: "x - beg = Day * k"
      by (auto simp: mod_eq_0_iff_dvd)
    have "0 < Day * k"
      using False "1.prems"(1) k by simp
    then have "0 < k"
      using Day_pos by (simp add: zero_less_mult_iff)
    then have "Day * 1 \<le> Day * k"
      using Day_pos by (intro mult_left_mono) simp_all
    with k have le: "beg + Day \<le> x"
      by simp
    have "x - (beg + Day) = Day * (k - 1)"
      using k by (simp add: right_diff_distrib)
    then have m: "(x - (beg + Day)) mod Day = 0"
      by simp
    have nlt: "\<not> en < beg"
      using "1.prems" by simp
    from "1.IH" [OF nlt le "1.prems"(2) m]
    show ?thesis
      using nlt by (subst dates_loop.simps) simp
  qed
qed

lemma date_in_dates:
  assumes "date since \<le> date ka" and "date ka \<le> date now"
  shows "date ka \<in> set (dates since now)"
proof -
  have "(date ka - date since) mod Day = 0"
    by (simp add: date_eq right_diff_distrib [symmetric])
  with assms show ?thesis
    unfolding dates_def by (intro dates_loop_mem)
qed

subsection \<open>The table\<close>

lemma PutItem_all:
  "list_all P tbl \<Longrightarrow> P new \<Longrightarrow> list_all P (PutItem tbl new)"
  by (induction tbl) auto

lemma UpdateItem_all:
  "list_all P tbl \<Longrightarrow> (\<And>it. P it \<Longrightarrow> P (upd it)) \<Longrightarrow> P (upd (empty_item\<lparr> colID := Some key \<rparr>)) \<Longrightarrow>
   list_all P (UpdateItem tbl key upd)"
  by (induction tbl) auto

lemma get_item_mem: "get_item tbl key = Some it \<Longrightarrow> it \<in> set tbl \<and> colID it = Some key"
  unfolding get_item_def by (auto simp: find_Some_iff)

lemma get_item_PutItem:
  "colID new = Some key \<Longrightarrow> get_item (PutItem tbl new) key = Some new"
  unfolding get_item_def by (induction tbl) auto

lemma get_item_UpdateItem:
  "get_item tbl key = Some it0 \<Longrightarrow> colID (upd it0) = Some key \<Longrightarrow>
   get_item (UpdateItem tbl key upd) key = Some (upd it0)"
  unfolding get_item_def by (induction tbl) (auto split: if_splits)

lemma apply_op_id4:
  assumes "list_all (id4_ok lib) (DB t)"
  shows "list_all (id4_ok lib) (DB (apply_op lib now t op))"
proof (cases op)
  case (OpCreateRun id' user)
  then show ?thesis
    using assms by (auto simp: CreateRun_def id4_ok_def empty_item_def intro!: PutItem_all)
next
  case (OpCreateTask id' runid flowid uri)
  then show ?thesis
    using assms by (auto simp: CreateTask_def id4_ok_def empty_item_def intro!: PutItem_all)
next
  case (OpSetTaskResult id' result)
  then show ?thesis
    using assms by (auto simp: SetTaskResult_def id4_ok_def empty_item_def intro!: UpdateItem_all)
next
  case (OpSetTaskAttrs id' stdout stderr inspect)
  then show ?thesis
    using assms by (auto simp: SetTaskAttrs_def id4_ok_def empty_item_def intro!: UpdateItem_all)
next
  case (OpKeepalive id' keepalive)
  then show ?thesis
    using assms by (auto simp: Keepalive_def id4_ok_def empty_item_def intro!: UpdateItem_all)
qed

lemma run_created_row: "get_item (DB run_created) ''sha256:ab12cd34'' = Some run_row"
  by (simp add: run_created_def CreateRun_def empty_db_def hex_lib_def get_item_def run_row_def
      Format_timeLayout_def Second_def)

lemma task_created_row: "get_item (DB task_created) ''sha256:77aa88bb'' = Some task_row"
  by (simp add: task_created_def CreateTask_def empty_db_def hex_lib_def get_item_def task_row_def
      Format_timeLayout_def Second_def)

subsection \<open>The service\<close>

lemma issue_accepted:
  "list_all accepted qs \<Longrightarrow> issue tbl qs = Ok (map (matching tbl) qs)"
  by (induction qs) (auto simp: QueryWithContext_def accepted_def matching_def)

lemma bucket_query_accepted: "accepted (bucket_query (bucket_filter q typ) since day)"
  by (simp add: accepted_def bucket_query_def bucket_filter_def Let_def key_conditions_def
      filter_expressions_def)

lemma bucket_query_row:
  assumes "colType it = Some ''run''"
    and "q_User q = [] \<or> colUser it = Some (q_User q)"
    and "colDate it = Some (Format_dateLayout day)"
    and "colKeepalive it = Some k" and "Format_timeLayout since < k"
  shows "key_holds (bucket_query (bucket_filter q run) since day) it \<and>
         filter_holds (bucket_query (bucket_filter q run) since day) it"
  using assms
  by (auto simp: bucket_query_def bucket_filter_def Let_def key_holds_def filter_holds_def
      named_equals_def attr_equals_def keepalive_after_def item_attr_def objType_string_def
      map_add_def)

lemma bucket_query_run_match:
  assumes "key_holds (bucket_query (bucket_filter q run) since day) it"
    and "filter_holds (bucket_query (bucket_filter q run) since day) it"
  shows "colType it = Some ''run'' \<and> colKeepalive it \<noteq> None"
proof -
  have "keepalive_after (bucket_query (bucket_filter q run) since day) it"
    using assms(1) by (simp add: key_holds_def bucket_query_def bucket_filter_def Let_def)
  then have ka: "colKeepalive it \<noteq> None"
    by (auto simp: keepalive_after_def split: option.splits AttributeValue.splits)
  have "named_equals (bucket_query (bucket_filter q run) since day) it ''#Type'' '':type''"
    using assms(2)
    by (cases "q_User q = []") (simp_all add: filter_holds_def bucket_query_def bucket_filter_def Let_def)
  then have "colType it = Some ''run''"
    by (cases "q_User q = []")
      (auto simp: named_equals_def attr_equals_def bucket_query_def bucket_filter_def Let_def
        item_attr_def objType_string_def map_add_def)
  with ka show ?thesis
    by simp
qed

lemma UpdateItem_set:
  "get_item tbl key = Some it0 \<Longrightarrow> set (UpdateItem tbl key upd) \<subseteq> insert (upd it0) (set tbl)"
  unfolding get_item_def by (induction tbl) (auto split: if_splits)

subsection \<open>The conversion of the rows\<close>

lemma labels_loop_ok:
  "list_all label_ok ss \<Longrightarrow> snd (labels_loop ss (l, errs)) = errs"
proof (induction ss arbitrary: l)
  case Nil
  then show ?case by simp
next
  case (Cons va ss)
  then have "length (Split va (CHR ''='')) = 2"
    by (simp add: label_ok_def)
  then obtain k v where "Split va (CHR ''='') = [k, v]"
    by (auto simp: length_Suc_conv numeral_2_eq_2)
  with Cons show ?case
    by simp
qed

lemma Runs_row_ok:
  assumes ok: "run_row_ok lib it k" and ka: "colKeepalive it = Some k" and z: "dIsZero lib (q_ID q)"
  shows "\<exists>r. Runs_row lib q it = Some (Some r, []) \<and>
           Some (Run_ID r) = (case colID it of None \<Rightarrow> None | Some s \<Rightarrow> dDigesterParse lib s) \<and>
           Some (Run_Keepalive r) = tParse lib k \<and> Some (Run_User r) = colUser it"
proof -
  from ok obtain s x ss st u tk ts where f: "colID it = Some s" "dDigesterParse lib s = Some x"
    "colLabels it = Some ss" "list_all label_ok ss" "colStartTime it = Some st" "colUser it = Some u"
    "tParse lib k = Some tk" "tParse lib st = Some ts"
    by (auto simp: run_row_ok_def split: option.splits)
  obtain l e2 where ll: "labels_loop ss ([], []) = (l, e2)"
    by (cases "labels_loop ss ([], [])") auto
  have "e2 = []"
    using labels_loop_ok [OF f(4), of "[]" "[]"] ll by simp
  then show ?thesis
    using f ka z ll by (simp add: Runs_row_def parse_digest_def parse_time_def)
qed

lemma Runs_rows_ok:
  "\<forall>it\<in>set items. \<exists>r. Runs_row lib q it = Some (Some r, []) \<Longrightarrow>
   \<exists>rs. Runs_rows lib q items (runs, errs) = Some (runs @ rs, errs) \<and>
        (\<forall>it\<in>set items. \<exists>r\<in>set rs. Runs_row lib q it = Some (Some r, []))"
proof (induction items arbitrary: runs)
  case Nil
  then show ?case by simp
next
  case (Cons it items)
  then obtain r where r: "Runs_row lib q it = Some (Some r, [])"
    by auto
  from Cons obtain rs where rs: "Runs_rows lib q items (runs @ [r], errs) = Some ((runs @ [r]) @ rs, errs)"
    "\<forall>it\<in>set items. \<exists>r\<in>set rs. Runs_row lib q it = Some (Some r, [])"
    by fastforce
  show ?case
    apply (rule exI [of _ "r # rs"])
    using r rs by auto
qed

subsection \<open>C8: a keepalive and the time-bucket queries\<close>

text \<open>
  C8 as the claim states it fails at \<open>Since = t\<close>: the key condition asks for
  \<open>Keepalive > :ka\<close>. The run created at second 100 is kept alive at second 200; the
  query with \<open>Since\<close> at second 200, issued at second 300, returns no run.
\<close>

theorem Keepalive_since_counterexample:
  "(200::int) * Second \<le> 200 * Second \<and>
   map_option colKeepalive (get_item (DB run_db) ''sha256:ab12cd34'') = Some (Some 200) \<and>
   Runs hex_lib run_db (300 * Second) (since_query (200 * Second)) = Ok []"
  by code_simp

text \<open>
  C8, amended. \<open>Keepalive(id, t)\<close> is one \<open>UpdateItem\<close> that sets \<open>Keepalive\<close> to \<open>t\<close>
  and \<open>Date\<close> to the date of \<open>t\<close>. Let the row of \<open>id\<close> be a run row, and let it and
  every run row of the table that has a keepalive be well formed: an ID that parses,
  labels that each split at one \<open>=\<close> into a key and a value, a start time and a
  keepalive that parse, and a user.
  Afterwards a time-bucket query of \<open>Runs\<close> (no ID, no run ID, a \<open>Since\<close>, and no user
  or the user of the row), issued at a time \<open>now\<close> whose date is not before the date of
  \<open>t\<close>, with \<open>Since\<close> before \<open>t\<close> by their serialized seconds, returns without an
  error a list of runs in which one has the ID and the user of the row and the
  keepalive \<open>t\<close>, to the second.
\<close>

theorem Keepalive_then_Runs:
  assumes g: "get_item (DB t) (dString lib id') = Some it0"
    and ty: "colType it0 = Some ''run''"
    and us: "q_User q = [] \<or> colUser it0 = Some (q_User q)"
    and z: "dIsZero lib (q_ID q)" "dIsZero lib (q_RunID q)" "q_Since q \<noteq> zero_Time"
    and lt: "Format_timeLayout (q_Since q) < Format_timeLayout keepalive"
    and today: "date keepalive \<le> date now"
    and ok0: "run_row_ok lib it0 (Format_timeLayout keepalive)"
    and oks: "run_rows_ok lib (DB t)"
  shows "get_item (DB (Keepalive lib t id' keepalive)) (dString lib id') =
           Some (it0\<lparr> colKeepalive := Some (Format_timeLayout keepalive),
                      colDate := Some (Format_dateLayout keepalive) \<rparr>) \<and>
         (\<exists>runs. Runs lib (Keepalive lib t id' keepalive) now q = Ok runs \<and>
            (\<exists>r\<in>set runs. Some (Run_ID r) = dDigesterParse lib (dString lib id') \<and>
               Some (Run_Keepalive r) = tParse lib (Format_timeLayout keepalive) \<and>
               Some (Run_User r) = colUser it0))"
proof -
  let ?t' = "Keepalive lib t id' keepalive"
  let ?qs = "map (bucket_query (bucket_filter q run) (q_Since q)) (dates (q_Since q) now)"
  let ?upd = "\<lambda>it. it\<lparr> colKeepalive := Some (Format_timeLayout keepalive),
                          colDate := Some (Format_dateLayout keepalive) \<rparr>"
  let ?it1 = "?upd it0"
  let ?items = "concat (map (matching (DB ?t')) ?qs)"
  have id0: "colID it0 = Some (dString lib id')"
    using get_item_mem [OF g] by simp
  with g have g1: "get_item (DB ?t') (dString lib id') = Some ?it1"
    by (simp add: Keepalive_def get_item_UpdateItem)
  then have mem: "?it1 \<in> set (DB ?t')"
    using get_item_mem by blast
  have "q_Since q < keepalive"
    using lt by (rule Format_timeLayout_less)
  then have "date (q_Since q) \<le> date keepalive"
    by (simp add: date_mono)
  from date_in_dates [OF this today]
  have day: "date keepalive \<in> set (dates (q_Since q) now)" .
  then have ne: "dates (q_Since q) now \<noteq> []"
    by auto
  have bq: "buildQueries lib now q run = Ok ?qs"
    using z ne by (simp add: buildQueries_def Let_def)
  have "list_all accepted ?qs"
    by (simp add: list_all_iff bucket_query_accepted)
  then have iss: "issue (DB ?t') ?qs = Ok (map (matching (DB ?t')) ?qs)"
    by (rule issue_accepted)
  have resp: "Runs_responses lib ?t' now q = Ok (map (matching (DB ?t')) ?qs)"
    by (simp add: Runs_responses_def Runs_queries_def bq iss)
  have "key_holds (bucket_query (bucket_filter q run) (q_Since q) (date keepalive)) ?it1 \<and>
        filter_holds (bucket_query (bucket_filter q run) (q_Since q) (date keepalive)) ?it1"
    using ty us lt by (intro bucket_query_row) (simp_all add: Format_dateLayout_date)
  with mem have "?it1 \<in> set (matching (DB ?t')
      (bucket_query (bucket_filter q run) (q_Since q) (date keepalive)))"
    by (simp add: matching_def)
  with day have in_items: "?it1 \<in> set ?items"
    by auto
  have ok1: "run_row_ok lib ?it1 (Format_timeLayout keepalive)"
    using ok0 by (simp add: run_row_ok_def)
  have sub: "set (DB ?t') \<subseteq> insert ?it1 (set (DB t))"
    using UpdateItem_set [OF g, of ?upd] by (simp add: Keepalive_def)
  have conv: "\<exists>r. Runs_row lib q it = Some (Some r, [])" if "it \<in> set ?items" for it
  proof -
    from that obtain day' where it: "it \<in> set (DB ?t')"
      "key_holds (bucket_query (bucket_filter q run) (q_Since q) day') it"
      "filter_holds (bucket_query (bucket_filter q run) (q_Since q) day') it"
      by (auto simp: matching_def)
    from bucket_query_run_match [OF it(2,3)]
    obtain k where k: "colType it = Some ''run''" "colKeepalive it = Some k"
      by auto
    have "run_row_ok lib it k"
    proof (cases "it = ?it1")
      case True
      with ok1 k(2) show ?thesis by simp
    next
      case False
      with it(1) sub have "it \<in> set (DB t)"
        by auto
      with oks k show ?thesis
        by (auto simp: run_rows_ok_def list_all_iff)
    qed
    from Runs_row_ok [OF this k(2) z(1)] show ?thesis
      by blast
  qed
  then have "\<forall>it\<in>set ?items. \<exists>r. Runs_row lib q it = Some (Some r, [])"
    by blast
  from Runs_rows_ok [OF this, of "[]" "[]"]
  obtain rs where rs: "Runs_rows lib q ?items ([], []) = Some (rs, [])"
    "\<forall>it\<in>set ?items. \<exists>r\<in>set rs. Runs_row lib q it = Some (Some r, [])"
    by auto
  have runs: "Runs lib ?t' now q = Ok rs"
    unfolding Runs_def resp call.case rs(1) by simp
  from rs(2) in_items obtain r where r: "r \<in> set rs" "Runs_row lib q ?it1 = Some (Some r, [])"
    by blast
  from Runs_row_ok [OF ok1 _ z(1)]
  obtain r' where r': "Runs_row lib q ?it1 = Some (Some r', [])"
    "Some (Run_ID r') = (case colID ?it1 of None \<Rightarrow> None | Some s \<Rightarrow> dDigesterParse lib s)"
    "Some (Run_Keepalive r') = tParse lib (Format_timeLayout keepalive)"
    "Some (Run_User r') = colUser ?it1"
    by auto
  have "r' = r"
    using r(2) r'(1) by simp
  with r' id0 have "Some (Run_ID r) = dDigesterParse lib (dString lib id') \<and>
      Some (Run_Keepalive r) = tParse lib (Format_timeLayout keepalive) \<and>
      Some (Run_User r) = colUser it0"
    by simp
  with r(1) runs g1 show ?thesis
    by blast
qed

text \<open>
  The theorem at a table of two runs: the run of \<open>bob\<close>, kept alive at second 60, and
  the run of \<open>alice\<close>, created at second 100 and kept alive at second 200. The query
  with \<open>Since\<close> at second 150, issued at second 300, returns the run of \<open>alice\<close>.
\<close>

theorem Keepalive_then_Runs_witness:
  "get_item (DB runs_created) (dString hex_lib ''ab12cd34'') = Some run_row \<and>
   colType run_row = Some ''run'' \<and>
   q_User (since_query (150 * Second)) = [] \<and>
   dIsZero hex_lib (q_ID (since_query (150 * Second))) \<and>
   dIsZero hex_lib (q_RunID (since_query (150 * Second))) \<and>
   q_Since (since_query (150 * Second)) \<noteq> zero_Time \<and>
   Format_timeLayout (q_Since (since_query (150 * Second))) < Format_timeLayout (200 * Second) \<and>
   date (200 * Second) \<le> date (300 * Second) \<and>
   run_row_ok hex_lib run_row (Format_timeLayout (200 * Second)) \<and>
   run_rows_ok hex_lib (DB runs_created) \<and>
   get_item (DB runs_db) (dString hex_lib ''ab12cd34'') =
     Some (run_row\<lparr> colKeepalive := Some 200, colDate := Some 0 \<rparr>) \<and>
   (\<exists>runs. Runs hex_lib runs_db (300 * Second) (since_query (150 * Second)) = Ok runs \<and>
      (\<exists>r\<in>set runs. Run_ID r = ''ab12cd34'' \<and> Run_Keepalive r = 200 * Second \<and>
         Run_User r = ''alice''))"
proof -
  have g: "get_item (DB runs_created) (dString hex_lib ''ab12cd34'') = Some run_row"
    by (simp add: runs_created_def CreateRun_def Keepalive_def empty_db_def hex_lib_def get_item_def
        run_row_def Format_timeLayout_def Format_dateLayout_def Second_def Day_def empty_item_def)
  have ty: "colType run_row = Some ''run''"
    by (simp add: run_row_def)
  have us: "q_User (since_query (150 * Second)) = [] \<or>
      colUser run_row = Some (q_User (since_query (150 * Second)))"
    by (simp add: since_query_def)
  have z: "dIsZero hex_lib (q_ID (since_query (150 * Second)))"
    "dIsZero hex_lib (q_RunID (since_query (150 * Second)))"
    "q_Since (since_query (150 * Second)) \<noteq> zero_Time"
    by (simp_all add: since_query_def hex_lib_def zero_Time_def Second_def)
  have lt: "Format_timeLayout (q_Since (since_query (150 * Second))) < Format_timeLayout (200 * Second)"
    by (simp add: since_query_def Format_timeLayout_def Second_def)
  have today: "date (200 * Second) \<le> date (300 * Second)"
    by (simp add: date_def Day_def Second_def)
  have ok0: "run_row_ok hex_lib run_row (Format_timeLayout (200 * Second))"
    by (simp add: run_row_ok_def run_row_def hex_lib_def label_ok_def Split_def empty_item_def)
  have oks: "run_rows_ok hex_lib (DB runs_created)"
    by (simp add: run_rows_ok_def run_row_ok_def runs_created_def CreateRun_def Keepalive_def
        empty_db_def hex_lib_def label_ok_def Split_def empty_item_def)
  have fmt: "Format_timeLayout (200 * Second) = 200" "Format_dateLayout (200 * Second) = 0"
    by (simp_all add: Format_timeLayout_def Format_dateLayout_def Day_def Second_def)
  from Keepalive_then_Runs [OF g ty us z lt today ok0 oks]
  show ?thesis
    using g ty z lt today ok0 oks
    by (simp add: runs_db_def since_query_def fmt hex_lib_def run_row_def empty_item_def)
qed

text \<open>
  A row that is not well formed makes the whole call fail. The run with the label
  \<open>cmd=a=b\<close> meets the other conditions, and \<open>Runs\<close> returns an error and no run. A
  keepalive for an ID that has no row adds a row of \<open>ID\<close>, \<open>Keepalive\<close> and \<open>Date\<close>
  only: \<open>Runs\<close> filters it out by its type, and \<open>Tasks\<close>, whose time-bucket queries
  have no filter on the type, panics on it, as it does on a run row.
\<close>

lemma Runs_malformed_row:
  "Runs hex_lib label_db (300 * Second) (since_query (150 * Second)) =
     Failed ''label not well formed: cmd=a=b'' \<and>
   Runs hex_lib orphan_db (300 * Second) (since_query (150 * Second)) = Ok [] \<and>
   Tasks hex_lib orphan_db (300 * Second) (since_query (150 * Second)) =
     Panics ''nil pointer dereference'' \<and>
   Tasks hex_lib run_db (300 * Second) (since_query (150 * Second)) =
     Panics ''nil pointer dereference''"
  by code_simp

text \<open>
  The loop of \<open>Tasks\<close> keeps the response to the last query only: the task kept alive
  at second 150 of day 0 is missing from a query with \<open>Since\<close> at second 120 that is
  issued on day 1, and present when the same query is issued on day 0.
\<close>

lemma Tasks_last_bucket:
  "Tasks hex_lib task_db (Day + 300 * Second) (since_query (120 * Second)) = Ok [] \<and>
   map_option (map Task_ID)
     (case Tasks hex_lib task_db (300 * Second) (since_query (120 * Second)) of
        Ok tasks \<Rightarrow> Some tasks | Failed m \<Rightarrow> None | Panics m \<Rightarrow> None) =
     Some [''77aa88bb'']"
  by code_simp

subsection \<open>C9: the row invariant\<close>

text \<open>
  C9 as the claim states it fails on the keepalive part. \<open>CreateTask\<close> writes a start
  time and no keepalive; \<open>Keepalive\<close> writes the time it is given: the task created at
  second 100 and kept alive at second 50 has a keepalive before its start time.
\<close>

theorem Keepalive_before_start_counterexample:
  "map_option colType (get_item (DB task_created) ''sha256:77aa88bb'') = Some (Some ''task'') \<and>
   map_option colKeepalive (get_item (DB task_created) ''sha256:77aa88bb'') = Some None \<and>
   map_option colStartTime (get_item (DB task_early) ''sha256:77aa88bb'') = Some (Some 100) \<and>
   map_option colKeepalive (get_item (DB task_early) ''sha256:77aa88bb'') = Some (Some 50) \<and>
   map_option keepalive_ok (get_item (DB task_early) ''sha256:77aa88bb'') = Some False"
  by code_simp

text \<open>
  C9, amended. Every operation (\<open>CreateRun\<close>, \<open>CreateTask\<close>, \<open>SetTaskResult\<close>,
  \<open>SetTaskAttrs\<close>, \<open>Keepalive\<close>) preserves that every Task row carries the \<open>HexN(4)\<close>
  of its ID. \<open>CreateTask\<close> writes that ID4 and the start time, and no keepalive.
  \<open>Keepalive(id, t)\<close> changes \<open>Keepalive\<close> and \<open>Date\<close> of the row only, so that the
  keepalive is not before the start time exactly when \<open>t\<close> is not before it (by their
  serialized seconds).
\<close>

theorem TaskDB_rows_amended:
  "(list_all (id4_ok lib) (DB t) \<longrightarrow> list_all (id4_ok lib) (DB (apply_op lib now t op))) \<and>
   (\<exists>it. get_item (DB (CreateTask lib t now id' runid flowid uri)) (dString lib id') = Some it \<and>
         colID4 it = Some (dHexN lib id' 4) \<and> colStartTime it = Some (Format_timeLayout now) \<and>
         colKeepalive it = None) \<and>
   (\<forall>it0. get_item (DB t) (dString lib id') = Some it0 \<longrightarrow>
      get_item (DB (Keepalive lib t id' keepalive)) (dString lib id') =
        Some (it0\<lparr> colKeepalive := Some (Format_timeLayout keepalive),
                   colDate := Some (Format_dateLayout keepalive) \<rparr>) \<and>
      (keepalive_ok (it0\<lparr> colKeepalive := Some (Format_timeLayout keepalive),
                   colDate := Some (Format_dateLayout keepalive) \<rparr>) =
       (case colStartTime it0 of None \<Rightarrow> False | Some s \<Rightarrow> s \<le> Format_timeLayout keepalive)))"
proof (intro conjI allI impI)
  assume "list_all (id4_ok lib) (DB t)"
  then show "list_all (id4_ok lib) (DB (apply_op lib now t op))"
    by (rule apply_op_id4)
next
  show "\<exists>it. get_item (DB (CreateTask lib t now id' runid flowid uri)) (dString lib id') = Some it \<and>
         colID4 it = Some (dHexN lib id' 4) \<and> colStartTime it = Some (Format_timeLayout now) \<and>
         colKeepalive it = None"
    by (simp add: CreateTask_def get_item_PutItem empty_item_def)
next
  fix it0
  assume g: "get_item (DB t) (dString lib id') = Some it0"
  then have "colID it0 = Some (dString lib id')"
    using get_item_mem by blast
  with g show "get_item (DB (Keepalive lib t id' keepalive)) (dString lib id') =
        Some (it0\<lparr> colKeepalive := Some (Format_timeLayout keepalive),
                   colDate := Some (Format_dateLayout keepalive) \<rparr>)"
    by (simp add: Keepalive_def get_item_UpdateItem)
next
  fix it0
  show "keepalive_ok (it0\<lparr> colKeepalive := Some (Format_timeLayout keepalive),
                   colDate := Some (Format_dateLayout keepalive) \<rparr>) =
       (case colStartTime it0 of None \<Rightarrow> False | Some s \<Rightarrow> s \<le> Format_timeLayout keepalive)"
    by (simp add: keepalive_ok_def)
qed

theorem TaskDB_rows_amended_witness:
  "list_all (id4_ok hex_lib) (DB task_created) \<and>
   list_all (id4_ok hex_lib) (DB (apply_op hex_lib (160 * Second) task_created
      (OpKeepalive ''77aa88bb'' (150 * Second)))) \<and>
   get_item (DB task_created) (dString hex_lib ''77aa88bb'') = Some task_row \<and>
   get_item (DB (Keepalive hex_lib task_created ''77aa88bb'' (150 * Second))) (dString hex_lib ''77aa88bb'') =
     Some (task_row\<lparr> colKeepalive := Some (Format_timeLayout (150 * Second)),
                     colDate := Some (Format_dateLayout (150 * Second)) \<rparr>) \<and>
   keepalive_ok (task_row\<lparr> colKeepalive := Some (Format_timeLayout (150 * Second)),
                     colDate := Some (Format_dateLayout (150 * Second)) \<rparr>)"
proof -
  have g: "get_item (DB task_created) (dString hex_lib ''77aa88bb'') = Some task_row"
    using task_created_row by (simp add: hex_lib_def)
  have "id4_ok hex_lib task_row"
    unfolding id4_ok_def
    by (intro impI exI [of _ "''77aa88bb''"]) (simp add: task_row_def hex_lib_def)
  moreover have "DB task_created = [task_row]"
    by (simp add: task_created_def CreateTask_def empty_db_def hex_lib_def task_row_def
        Format_timeLayout_def Second_def)
  ultimately have inv: "list_all (id4_ok hex_lib) (DB task_created)"
    by simp
  have st: "(case colStartTime task_row of None \<Rightarrow> False
      | Some s \<Rightarrow> s \<le> Format_timeLayout (150 * Second))"
    by (simp add: task_row_def Format_timeLayout_def Second_def)
  from TaskDB_rows_amended [of hex_lib task_created "160 * Second"
      "OpKeepalive ''77aa88bb'' (150 * Second)" "''77aa88bb''" "''ab12cd34''"
      "''f00d''" "''uri''" "150 * Second"]
  show ?thesis
    using inv g st by simp
qed

subsection \<open>C10: a Since in a future date bucket\<close>

text \<open>
  C10. For a query with a zero ID and a zero run ID whose \<open>Since\<close> lies in a date after
  today's (the clock is past the zero time), \<open>dates(since, now)\<close> is empty and
  \<open>buildQueries\<close> returns one query whose key condition is the empty string; \<open>Runs\<close>
  and \<open>Tasks\<close> pass that query to the service, which rejects it.
\<close>

theorem buildQueries_future_since:
  assumes "dIsZero lib (q_ID q)" and "dIsZero lib (q_RunID q)"
    and "zero_Time \<le> now" and "date now < date (q_Since q)"
  shows "dates (q_Since q) now = [] \<and>
         (\<exists>qi. buildQueries lib now q typ = Ok [qi] \<and> KeyConditionExpression qi = [] \<and>
               Runs_queries lib now q = buildQueries lib now q run \<and>
               Tasks_queries lib now q = buildQueries lib now q task) \<and>
         Runs lib t now q = Failed ''ValidationException'' \<and>
         Tasks lib t now q = Failed ''ValidationException''"
proof -
  have dts: "dates (q_Since q) now = []"
    using assms(4) by (rule dates_future)
  have "now < q_Since q"
  proof (rule ccontr)
    assume "\<not> now < q_Since q"
    then have "date (q_Since q) \<le> date now"
      by (simp add: date_mono)
    with assms(4) show False
      by simp
  qed
  with assms(3) have nz: "q_Since q \<noteq> zero_Time"
    by simp
  have b: "buildQueries lib now q ty =
      Ok [\<lparr> IndexName = ''Date-Keepalive-index'', KeyConditionExpression = [],
           ExpressionAttributeValues = fst (snd (bucket_filter q ty)),
           ExpressionAttributeNames = snd (snd (bucket_filter q ty)),
           FilterExpression = (if fst (bucket_filter q ty) \<noteq> []
              then Some (Join (fst (bucket_filter q ty)) '' and '') else None) \<rparr>]" for ty
    using assms(1,2) nz dts by (simp add: buildQueries_def Let_def split: prod.splits)
  have r: "Runs lib t now q = Failed ''ValidationException''"
    by (simp add: Runs_def Runs_responses_def Runs_queries_def b QueryWithContext_def key_conditions_def)
  have k: "Tasks lib t now q = Failed ''ValidationException''"
    using assms(2)
    by (simp add: Tasks_def Tasks_responses_def Tasks_queries_def b QueryWithContext_def key_conditions_def)
  show ?thesis
    using dts r k assms(2) by (simp add: b Runs_queries_def Tasks_queries_def)
qed

theorem buildQueries_future_since_witness:
  "dIsZero hex_lib (q_ID (since_query (2 * Day + 5))) \<and>
   dIsZero hex_lib (q_RunID (since_query (2 * Day + 5))) \<and>
   zero_Time \<le> Day + 7 \<and> date (Day + 7) < date (q_Since (since_query (2 * Day + 5))) \<and>
   dates (q_Since (since_query (2 * Day + 5))) (Day + 7) = [] \<and>
   (\<exists>qi. buildQueries hex_lib (Day + 7) (since_query (2 * Day + 5)) run = Ok [qi] \<and>
         KeyConditionExpression qi = []) \<and>
   Runs hex_lib run_db (Day + 7) (since_query (2 * Day + 5)) = Failed ''ValidationException'' \<and>
   Tasks hex_lib run_db (Day + 7) (since_query (2 * Day + 5)) = Failed ''ValidationException''"
proof -
  have z: "dIsZero hex_lib (q_ID (since_query (2 * Day + 5)))"
    "dIsZero hex_lib (q_RunID (since_query (2 * Day + 5)))"
    by (simp_all add: since_query_def hex_lib_def)
  have clock: "zero_Time \<le> Day + 7"
    by (simp add: zero_Time_def Day_def Second_def)
  have future: "date (Day + 7) < date (q_Since (since_query (2 * Day + 5)))"
    by (simp add: since_query_def date_def Day_def Second_def)
  from buildQueries_future_since [OF z clock future, of run run_db]
  show ?thesis
    using z clock future by blast
qed

section \<open>Spot requests: properties\<close>






subsection \<open>C7: the spot request and its fulfillment\<close>




end
